theory Spec2Isabelle
  imports Main "HOL-Library.Word"
begin

unbundle bit_operations_syntax

section \<open>Shared vocabulary\<close>

text \<open>
  \<open>NTSTATUS\<close> is a 32-bit signed value; \<open>NT_SUCCESS\<close> is the sign test of the Windows
  headers. The status codes carry their documented values. \<open>size_t\<close> is the 64-bit
  unsigned size of the kernel build.
\<close>

type_synonym NTSTATUS = "32 word"
type_synonym size_t = "64 word"
type_synonym ACCESS_MASK = "32 word"

definition STATUS_SUCCESS :: NTSTATUS where
  "STATUS_SUCCESS = 0x00000000"

definition STATUS_PENDING :: NTSTATUS where
  "STATUS_PENDING = 0x00000103"

definition STATUS_INVALID_PARAMETER :: NTSTATUS where
  "STATUS_INVALID_PARAMETER = 0xC000000D"

definition STATUS_INVALID_DEVICE_REQUEST :: NTSTATUS where
  "STATUS_INVALID_DEVICE_REQUEST = 0xC0000010"

definition STATUS_ACCESS_DENIED :: NTSTATUS where
  "STATUS_ACCESS_DENIED = 0xC0000022"

definition STATUS_BUFFER_TOO_SMALL :: NTSTATUS where
  "STATUS_BUFFER_TOO_SMALL = 0xC0000023"

definition STATUS_INSUFFICIENT_RESOURCES :: NTSTATUS where
  "STATUS_INSUFFICIENT_RESOURCES = 0xC000009A"

definition NT_SUCCESS :: "NTSTATUS \<Rightarrow> bool" where
  "NT_SUCCESS status = (0 \<le> sint status)"

definition GENERIC_ALL :: ACCESS_MASK where
  "GENERIC_ALL = 0x10000000"

text \<open>
  What stops a function before its end: a failed \<open>ASSERT\<close>/\<open>ebpf_assert\<close>, or an access
  through a pointer to memory that is not allocated.
\<close>

datatype fault = Assertion_failed | Invalid_access

section \<open>ebpfcore/ebpf_drv.c: the privileged security descriptor\<close>

record SID =
  Revision :: "8 word"
  SubAuthorityCount :: "8 word"
  IdentifierAuthority :: "8 word list"
  SubAuthority :: "32 word list"

record ACCESS_ALLOWED_ACE =
  Mask :: ACCESS_MASK
  AceSid :: SID

record SECURITY_DESCRIPTOR =
  DaclPresent :: bool
  Dacl :: "ACCESS_ALLOWED_ACE list option"
  DaclDefaulted :: bool

datatype pool_object = Sid_memory | Dacl_memory | Security_descriptor_memory

datatype driver_event =
    Allocate pool_object
  | Free pool_object
  | Core_initiate
  | Core_terminate
  | WdfControlFinishInitializing
  | WdfObjectDelete

record driver_globals =
  ebpf_driver_unloading_flag :: bool
  ebpf_execution_context_privileged_security_descriptor :: "SECURITY_DESCRIPTOR option"

text \<open>
  The outcomes of the kernel routines the builder calls: whether each of the three pool
  allocations returns memory, and the status of each \<open>Rtl\<close> call.
\<close>

record build_env =
  allocate_sid :: bool
  RtlInitializeSid :: NTSTATUS
  RtlCreateSecurityDescriptor :: NTSTATUS
  allocate_dacl :: bool
  RtlCreateAcl :: NTSTATUS
  RtlAddAccessAllowedAce :: NTSTATUS
  RtlSetDaclSecurityDescriptor :: NTSTATUS
  RtlAbsoluteToSelfRelativeSD_size :: NTSTATUS
  allocate_self_relative :: bool
  RtlAbsoluteToSelfRelativeSD :: NTSTATUS

definition sid_subauthorities :: "32 word list" where
  "sid_subauthorities = [3453964624, 2861012444, 1105579853, 3193141192, 1897355174]"

definition service_authority :: "8 word list" where
  "service_authority = [0x00, 0x00, 0x00, 0x00, 0x00, 0x50]"

definition subauthority_count :: nat where
  "subauthority_count = length sid_subauthorities"

text \<open>The loop \<open>for (i = 0; i < subauthority_count; i++) *RtlSubAuthoritySid(sid, i) = ...\<close>.\<close>

function set_subauthorities :: "nat \<Rightarrow> SID \<Rightarrow> SID" where
  "set_subauthorities i sid =
     (if i < subauthority_count
      then set_subauthorities (Suc i)
             (sid\<lparr>SubAuthority := (SubAuthority sid)[i := sid_subauthorities ! i]\<rparr>)
      else sid)"
  by pat_completeness auto
termination
  by (relation "measure (\<lambda>(i, sid). subauthority_count - i)") auto

definition initialized_sid :: SID where
  "initialized_sid =
     \<lparr>Revision = 1, SubAuthorityCount = of_nat subauthority_count,
      IdentifierAuthority = service_authority,
      SubAuthority = replicate subauthority_count 0\<rparr>"

text \<open>
  The tail of the builder from \<open>Exit:\<close> on: the three conditional \<open>ebpf_free\<close> calls. The
  arguments say which of the three local pointers are non-null.
\<close>

definition build_exit :: "bool \<Rightarrow> bool \<Rightarrow> bool \<Rightarrow> driver_event list" where
  "build_exit sid dacl self_relative =
     (if sid then [Free Sid_memory] else []) @
     (if dacl then [Free Dacl_memory] else []) @
     (if self_relative then [Free Security_descriptor_memory] else [])"

definition ebpf_driver_build_privileged_security_descriptor ::
  "build_env \<Rightarrow> driver_globals \<Rightarrow> NTSTATUS \<times> driver_globals \<times> driver_event list" where
  "ebpf_driver_build_privileged_security_descriptor env g =
     (if \<not> allocate_sid env
      then (STATUS_INSUFFICIENT_RESOURCES, g, build_exit False False False)
      else if \<not> NT_SUCCESS (RtlInitializeSid env)
      then (RtlInitializeSid env, g, Allocate Sid_memory # build_exit True False False)
      else
        let sid = set_subauthorities 0 initialized_sid in
        if \<not> NT_SUCCESS (RtlCreateSecurityDescriptor env)
        then (RtlCreateSecurityDescriptor env, g,
              Allocate Sid_memory # build_exit True False False)
        else if \<not> allocate_dacl env
        then (STATUS_INSUFFICIENT_RESOURCES, g,
              Allocate Sid_memory # build_exit True False False)
        else if \<not> NT_SUCCESS (RtlCreateAcl env)
        then (RtlCreateAcl env, g,
              [Allocate Sid_memory, Allocate Dacl_memory] @ build_exit True True False)
        else if \<not> NT_SUCCESS (RtlAddAccessAllowedAce env)
        then (RtlAddAccessAllowedAce env, g,
              [Allocate Sid_memory, Allocate Dacl_memory] @ build_exit True True False)
        else
          let dacl = [\<lparr>Mask = GENERIC_ALL, AceSid = sid\<rparr>] in
          if \<not> NT_SUCCESS (RtlSetDaclSecurityDescriptor env)
          then (RtlSetDaclSecurityDescriptor env, g,
                [Allocate Sid_memory, Allocate Dacl_memory] @ build_exit True True False)
          else
            let security_descriptor =
                  \<lparr>DaclPresent = True, Dacl = Some dacl, DaclDefaulted = False\<rparr> in
            if RtlAbsoluteToSelfRelativeSD_size env \<noteq> STATUS_BUFFER_TOO_SMALL
            then (RtlAbsoluteToSelfRelativeSD_size env, g,
                  [Allocate Sid_memory, Allocate Dacl_memory] @ build_exit True True False)
            else if \<not> allocate_self_relative env
            then (STATUS_INSUFFICIENT_RESOURCES, g,
                  [Allocate Sid_memory, Allocate Dacl_memory] @ build_exit True True False)
            else if \<not> NT_SUCCESS (RtlAbsoluteToSelfRelativeSD env)
            then (RtlAbsoluteToSelfRelativeSD env, g,
                  [Allocate Sid_memory, Allocate Dacl_memory,
                   Allocate Security_descriptor_memory] @ build_exit True True True)
            else
              (RtlAbsoluteToSelfRelativeSD env,
               g\<lparr>ebpf_execution_context_privileged_security_descriptor :=
                    Some security_descriptor\<rparr>,
               [Allocate Sid_memory, Allocate Dacl_memory,
                Allocate Security_descriptor_memory] @ build_exit True True False))"

definition ebpf_driver_unload :: "driver_globals \<Rightarrow> driver_globals \<times> driver_event list" where
  "ebpf_driver_unload g =
     (let g1 = g\<lparr>ebpf_driver_unloading_flag := True\<rparr> in
      if ebpf_execution_context_privileged_security_descriptor g1 \<noteq> None
      then (g1\<lparr>ebpf_execution_context_privileged_security_descriptor := None\<rparr>,
            [Free Security_descriptor_memory, Core_terminate])
      else (g1, [Core_terminate]))"

text \<open>
  The outcomes of the calls \<open>_ebpf_driver_initialize_objects\<close> makes before it builds the
  descriptor: \<open>WdfDriverCreate\<close>, \<open>_ebpf_driver_initialize_device\<close>, \<open>WdfIoQueueCreate\<close>
  and \<open>ebpf_core_initiate\<close> (after its conversion to \<open>NTSTATUS\<close>).
\<close>

record initialize_env =
  WdfDriverCreate :: NTSTATUS
  ebpf_driver_initialize_device :: NTSTATUS
  WdfIoQueueCreate :: NTSTATUS
  ebpf_core_initiate :: NTSTATUS

text \<open>
  The code of \<open>_ebpf_driver_initialize_objects\<close> from \<open>Exit:\<close> on. The device pointer
  handed in by \<open>DriverEntry\<close> is not null.
\<close>

definition initialize_exit :: "NTSTATUS \<Rightarrow> bool \<Rightarrow> bool \<Rightarrow> driver_event list" where
  "initialize_exit status ebpf_core_initialized device_create_flag =
     (if \<not> NT_SUCCESS status
      then (if ebpf_core_initialized then [Core_terminate] else []) @
           (if device_create_flag then [WdfObjectDelete] else [])
      else [])"

definition ebpf_driver_initialize_objects ::
  "initialize_env \<Rightarrow> build_env \<Rightarrow> driver_globals
     \<Rightarrow> NTSTATUS \<times> driver_globals \<times> driver_event list" where
  "ebpf_driver_initialize_objects ienv env g =
     (if \<not> NT_SUCCESS (WdfDriverCreate ienv)
      then (WdfDriverCreate ienv, g, initialize_exit (WdfDriverCreate ienv) False False)
      else if \<not> NT_SUCCESS (ebpf_driver_initialize_device ienv)
      then (ebpf_driver_initialize_device ienv, g,
            initialize_exit (ebpf_driver_initialize_device ienv) False False)
      else if \<not> NT_SUCCESS (WdfIoQueueCreate ienv)
      then (WdfIoQueueCreate ienv, g, initialize_exit (WdfIoQueueCreate ienv) False True)
      else if \<not> NT_SUCCESS (ebpf_core_initiate ienv)
      then (ebpf_core_initiate ienv, g,
            Core_initiate # initialize_exit (ebpf_core_initiate ienv) False True)
      else
        case ebpf_driver_build_privileged_security_descriptor env g of
          (status, g', built) \<Rightarrow>
            if \<not> NT_SUCCESS status
            then (status, g', Core_initiate # built @ initialize_exit status True True)
            else (status, g',
                  Core_initiate # built @ [WdfControlFinishInitializing] @
                  initialize_exit status True True))"

text \<open>
  The principals an installed descriptor grants \<open>GENERIC_ALL\<close> to, in the order of its
  access-control entries.
\<close>

definition granted_generic_all :: "driver_globals \<Rightarrow> SID list" where
  "granted_generic_all g =
     (case ebpf_execution_context_privileged_security_descriptor g of
        None \<Rightarrow> []
      | Some security_descriptor \<Rightarrow>
          (case Dacl security_descriptor of
             None \<Rightarrow> []
           | Some aces \<Rightarrow> map AceSid (filter (\<lambda>ace. Mask ace = GENERIC_ALL) aces)))"

text \<open>
  The well-known principals of the device's SDDL string next to the service: \<open>SY\<close>, local
  system, is S-1-5-18 and \<open>BA\<close>, the built-in administrators, is S-1-5-32-544.
\<close>

definition local_system_sid :: SID where
  "local_system_sid =
     \<lparr>Revision = 1, SubAuthorityCount = 1,
      IdentifierAuthority = [0x00, 0x00, 0x00, 0x00, 0x00, 0x05], SubAuthority = [18]\<rparr>"

definition builtin_administrators_sid :: SID where
  "builtin_administrators_sid =
     \<lparr>Revision = 1, SubAuthorityCount = 2,
      IdentifierAuthority = [0x00, 0x00, 0x00, 0x00, 0x00, 0x05], SubAuthority = [32, 544]\<rparr>"

text \<open>The run of the builder in which every allocation and every call succeeds.\<close>

definition every_call_succeeds :: "build_env \<Rightarrow> bool" where
  "every_call_succeeds env =
     (allocate_sid env \<and> NT_SUCCESS (RtlInitializeSid env) \<and>
      NT_SUCCESS (RtlCreateSecurityDescriptor env) \<and> allocate_dacl env \<and>
      NT_SUCCESS (RtlCreateAcl env) \<and> NT_SUCCESS (RtlAddAccessAllowedAce env) \<and>
      NT_SUCCESS (RtlSetDaclSecurityDescriptor env) \<and>
      RtlAbsoluteToSelfRelativeSD_size env = STATUS_BUFFER_TOO_SMALL \<and>
      allocate_self_relative env \<and> NT_SUCCESS (RtlAbsoluteToSelfRelativeSD env))"

definition successful_build :: build_env where
  "successful_build =
     \<lparr>allocate_sid = True, RtlInitializeSid = STATUS_SUCCESS,
      RtlCreateSecurityDescriptor = STATUS_SUCCESS, allocate_dacl = True,
      RtlCreateAcl = STATUS_SUCCESS, RtlAddAccessAllowedAce = STATUS_SUCCESS,
      RtlSetDaclSecurityDescriptor = STATUS_SUCCESS,
      RtlAbsoluteToSelfRelativeSD_size = STATUS_BUFFER_TOO_SMALL,
      allocate_self_relative = True, RtlAbsoluteToSelfRelativeSD = STATUS_SUCCESS\<rparr>"

definition successful_initialize :: initialize_env where
  "successful_initialize =
     \<lparr>WdfDriverCreate = STATUS_SUCCESS, ebpf_driver_initialize_device = STATUS_SUCCESS,
      WdfIoQueueCreate = STATUS_SUCCESS, ebpf_core_initiate = STATUS_SUCCESS\<rparr>"

text \<open>The descriptor the builder installs when every call succeeds.\<close>

definition built_sid :: SID where
  "built_sid =
     \<lparr>Revision = 1, SubAuthorityCount = 5,
      IdentifierAuthority = [0x00, 0x00, 0x00, 0x00, 0x00, 0x50],
      SubAuthority = [3453964624, 2861012444, 1105579853, 3193141192, 1897355174]\<rparr>"

definition built_descriptor :: SECURITY_DESCRIPTOR where
  "built_descriptor =
     \<lparr>DaclPresent = True, Dacl = Some [\<lparr>Mask = GENERIC_ALL, AceSid = built_sid\<rparr>],
      DaclDefaulted = False\<rparr>"

text \<open>
  The SID the comments and the device's SDDL string name for the service,
  S-1-5-80-3453964624-2861012444-1105579853-3193141192-1897355174. In the string form
  \<open>S-R-I-S...\<close> the number after the revision is the identifier authority and the rest
  are sub-authorities: identifier authority 5, then 80 and the five numbers.
\<close>

definition sddl_service_sid :: SID where
  "sddl_service_sid =
     \<lparr>Revision = 1, SubAuthorityCount = 6,
      IdentifierAuthority = [0x00, 0x00, 0x00, 0x00, 0x00, 0x05],
      SubAuthority = [80, 3453964624, 2861012444, 1105579853, 3193141192, 1897355174]\<rparr>"

text \<open>
  \<open>SeAccessCheck\<close> is the kernel's: it is a parameter, applied to the descriptor and the
  desired access (the subject is the captured context of the calling thread; the generic
  mapping, the previously granted access and the access mode are the constants of the
  call). It returns the BOOLEAN result, the granted access and the status.
\<close>

type_synonym access_check =
  "SECURITY_DESCRIPTOR option \<Rightarrow> ACCESS_MASK \<Rightarrow> bool \<times> ACCESS_MASK \<times> NTSTATUS"

definition ebpf_driver_is_caller_privileged :: "access_check \<Rightarrow> driver_globals \<Rightarrow> bool" where
  "ebpf_driver_is_caller_privileged SeAccessCheck g =
     (case SeAccessCheck (ebpf_execution_context_privileged_security_descriptor g) GENERIC_ALL of
        (result, granted_access, status) \<Rightarrow>
          result \<and> NT_SUCCESS status \<and> granted_access = GENERIC_ALL)"

section \<open>ebpfcore/ebpf_drv.c: the IOCTL dispatcher\<close>

definition CTL_CODE :: "32 word \<Rightarrow> 32 word \<Rightarrow> 32 word \<Rightarrow> 32 word \<Rightarrow> 32 word" where
  "CTL_CODE DeviceType Function Method Access =
     push_bit 16 DeviceType OR push_bit 14 Access OR push_bit 2 Function OR Method"

definition FILE_DEVICE_NETWORK :: "32 word" where
  "FILE_DEVICE_NETWORK = 0x00000012"

definition METHOD_BUFFERED :: "32 word" where
  "METHOD_BUFFERED = 0"

definition FILE_ANY_ACCESS :: "32 word" where
  "FILE_ANY_ACCESS = 0"

definition EBPF_IOCTL_TYPE :: "32 word" where
  "EBPF_IOCTL_TYPE = FILE_DEVICE_NETWORK"

definition IOCTL_EBPF_CTL_METHOD_BUFFERED :: "32 word" where
  "IOCTL_EBPF_CTL_METHOD_BUFFERED =
     CTL_CODE EBPF_IOCTL_TYPE 0x900 METHOD_BUFFERED FILE_ANY_ACCESS"

type_synonym operation_id = "32 word"

record ebpf_operation_header =
  length_field :: "16 word"
  id_field :: operation_id

text \<open>
  What the request does to the outside: the calls on the WDF request object and the
  invocation of the protocol handler, in the order they happen. The handler invocation
  records the operation id, the two lengths after their cast to \<open>uint16_t\<close>, whether the
  reply pointer is non-null and whether an async context is passed.
\<close>

datatype request_event =
    WdfObjectReference
  | WdfRequestMarkCancelable
  | Invoke_protocol_handler operation_id "16 word" bool "16 word" bool
  | WdfRequestUnmarkCancelable
  | WdfObjectDereference
  | WdfRequestCompleteWithInformation NTSTATUS size_t

text \<open>
  The collaborators of the dispatcher, none of them in this file of the driver: the two
  WDF buffer retrievals (status, buffer pointer, actual length), the core's table of
  handler properties (result, minimum request size, minimum reply size, async, privileged),
  the handler invocation, the conversion of results to \<open>NTSTATUS\<close>, the access check,
  \<open>sizeof(struct _ebpf_operation_header)\<close>, and whether the macro \<open>ebpf_assert\<close>, which
  this file uses and does not define, checks its condition or is compiled out.
\<close>

record 'r io_env =
  sizeof_ebpf_operation_header :: size_t
  WdfRequestRetrieveInputBuffer :: "size_t \<Rightarrow> NTSTATUS \<times> ebpf_operation_header option \<times> size_t"
  WdfRequestRetrieveOutputBuffer :: "size_t \<Rightarrow> NTSTATUS \<times> nat option \<times> size_t"
  ebpf_core_get_protocol_handler_properties ::
    "operation_id \<Rightarrow> 'r \<times> size_t \<times> size_t \<times> bool \<times> bool"
  ebpf_core_invoke_protocol_handler ::
    "operation_id \<Rightarrow> 16 word \<Rightarrow> bool \<Rightarrow> 16 word \<Rightarrow> bool \<Rightarrow> 'r"
  ebpf_result_to_ntstatus :: "'r \<Rightarrow> NTSTATUS"
  SeAccessCheck :: access_check
  ebpf_assert_checked :: bool

text \<open>
  The code from the label \<open>Done:\<close> on. Where \<open>ebpf_assert\<close> checks its condition, a false
  condition stops the function there; where it is compiled out, the function goes on.
\<close>

definition Done ::
  "bool \<Rightarrow> NTSTATUS \<Rightarrow> bool \<Rightarrow> size_t \<Rightarrow> request_event list
     \<Rightarrow> fault + request_event list" where
  "Done assert_checked status wdf_request_ref_acquired output_buffer_length events =
     (if status \<noteq> STATUS_PENDING
      then if wdf_request_ref_acquired
           then if assert_checked \<and> \<not> (status \<noteq> STATUS_SUCCESS)
                then Inl Assertion_failed
                else Inr (events @
                       [WdfRequestUnmarkCancelable, WdfObjectDereference,
                        WdfRequestCompleteWithInformation status output_buffer_length])
           else Inr (events @ [WdfRequestCompleteWithInformation status output_buffer_length])
      else Inr events)"

text \<open>
  The block under \<open>if (minimum_reply_size > 0)\<close>: an early exit with a status, or the
  reply pointer and the actual output length the handler is called with.
\<close>

definition retrieve_reply ::
  "'r io_env \<Rightarrow> size_t \<Rightarrow> size_t \<Rightarrow> NTSTATUS + (nat option \<times> size_t)" where
  "retrieve_reply env output_buffer_length minimum_reply_size =
     (if minimum_reply_size > 0
      then case WdfRequestRetrieveOutputBuffer env output_buffer_length of
             (status, output_buffer, actual_output_length) \<Rightarrow>
               if \<not> NT_SUCCESS status then Inl status
               else if output_buffer = None then Inl STATUS_INVALID_PARAMETER
               else if actual_output_length < minimum_reply_size
               then Inl STATUS_BUFFER_TOO_SMALL
               else Inr (output_buffer, actual_output_length)
      else Inr (None, 0))"

text \<open>The block from \<open>if (async)\<close> to the \<open>goto Done\<close> after the handler invocation.\<close>

definition invoke_handler ::
  "'r io_env \<Rightarrow> operation_id \<Rightarrow> size_t \<Rightarrow> nat option \<Rightarrow> size_t \<Rightarrow> bool \<Rightarrow> size_t
     \<Rightarrow> fault + request_event list" where
  "invoke_handler env request_id actual_input_length user_reply actual_output_length async
       output_buffer_length =
     (let marked = (if async then [WdfObjectReference, WdfRequestMarkCancelable] else []);
          wdf_request_ref_acquired = async;
          status = ebpf_result_to_ntstatus env
                     (ebpf_core_invoke_protocol_handler env request_id
                        (ucast actual_input_length) (user_reply \<noteq> None)
                        (ucast actual_output_length) async)
      in Done (ebpf_assert_checked env) status wdf_request_ref_acquired output_buffer_length
           (marked @
            [Invoke_protocol_handler request_id (ucast actual_input_length)
               (user_reply \<noteq> None) (ucast actual_output_length) async]))"

definition ebpf_driver_io_device_control ::
  "'r io_env \<Rightarrow> driver_globals \<Rightarrow> size_t \<Rightarrow> size_t \<Rightarrow> 32 word
     \<Rightarrow> fault + request_event list" where
  "ebpf_driver_io_device_control env g output_buffer_length input_buffer_length
       io_control_code =
     (if io_control_code = IOCTL_EBPF_CTL_METHOD_BUFFERED
      then
        if input_buffer_length \<noteq> 0
        then
          case WdfRequestRetrieveInputBuffer env input_buffer_length of
            (status, input_buffer, actual_input_length) \<Rightarrow>
              if \<not> NT_SUCCESS status then Done (ebpf_assert_checked env) status False output_buffer_length []
              else
                case input_buffer of
                  None \<Rightarrow> Done (ebpf_assert_checked env) STATUS_INVALID_PARAMETER False output_buffer_length []
                | Some user_request \<Rightarrow>
                    if actual_input_length < sizeof_ebpf_operation_header env
                    then Done (ebpf_assert_checked env) STATUS_INVALID_PARAMETER False output_buffer_length []
                    else
                      case ebpf_core_get_protocol_handler_properties env (id_field user_request) of
                        (result, minimum_request_size, minimum_reply_size, async, privileged) \<Rightarrow>
                          if ebpf_result_to_ntstatus env result \<noteq> STATUS_SUCCESS
                          then Done (ebpf_assert_checked env) (ebpf_result_to_ntstatus env result)
                                 False
                                 output_buffer_length []
                          else if privileged \<and>
                                  \<not> ebpf_driver_is_caller_privileged (SeAccessCheck env) g
                          then Done (ebpf_assert_checked env) STATUS_ACCESS_DENIED False output_buffer_length []
                          else
                            case retrieve_reply env output_buffer_length minimum_reply_size of
                              Inl status \<Rightarrow> Done (ebpf_assert_checked env) status False output_buffer_length []
                            | Inr (user_reply, actual_output_length) \<Rightarrow>
                                invoke_handler env (id_field user_request) actual_input_length
                                  user_reply actual_output_length async output_buffer_length
        else Done (ebpf_assert_checked env) STATUS_INVALID_PARAMETER False output_buffer_length []
      else Done (ebpf_assert_checked env) STATUS_INVALID_DEVICE_REQUEST False output_buffer_length [])"

text \<open>
  A concrete set of collaborators for evaluating the dispatcher: results are already
  \<open>NTSTATUS\<close> values, the header is 8 bytes, operation 1 is synchronous and privileged with
  a 16-byte minimum reply, operation 2 is asynchronous, not privileged and expects no
  reply, every other operation is unknown. The request carries the given operation id,
  the access check answers as given, the handler fails an asynchronous invocation and
  \<open>ebpf_assert\<close> checks its condition.
\<close>

definition sample_env :: "operation_id \<Rightarrow> bool \<Rightarrow> NTSTATUS io_env" where
  "sample_env request_id privileged_caller =
     \<lparr>sizeof_ebpf_operation_header = 8,
      WdfRequestRetrieveInputBuffer =
        (\<lambda>n. (STATUS_SUCCESS, Some \<lparr>length_field = ucast n, id_field = request_id\<rparr>, n)),
      WdfRequestRetrieveOutputBuffer = (\<lambda>n. (STATUS_SUCCESS, Some 0, n)),
      ebpf_core_get_protocol_handler_properties =
        (\<lambda>i. if i = 1 then (STATUS_SUCCESS, 8, 16, False, True)
             else if i = 2 then (STATUS_SUCCESS, 8, 0, True, False)
             else (STATUS_INVALID_PARAMETER, 0, 0, False, False)),
      ebpf_core_invoke_protocol_handler =
        (\<lambda>i n r m a. if a then STATUS_INVALID_PARAMETER else STATUS_SUCCESS),
      ebpf_result_to_ntstatus = (\<lambda>r. r),
      SeAccessCheck =
        (\<lambda>sd desired. if privileged_caller then (True, GENERIC_ALL, STATUS_SUCCESS)
                      else (False, 0, STATUS_ACCESS_DENIED)),
      ebpf_assert_checked = True\<rparr>"

text \<open>
  The same collaborators with a handler that returns success also when it is invoked
  asynchronously, the assertion checked or compiled out as given.
\<close>

definition async_success_env :: "bool \<Rightarrow> NTSTATUS io_env" where
  "async_success_env checked =
     (sample_env 2 False)
       \<lparr>ebpf_core_invoke_protocol_handler := (\<lambda>i n r m a. STATUS_SUCCESS),
        ebpf_assert_checked := checked\<rparr>"

definition no_globals :: driver_globals where
  "no_globals =
     \<lparr>ebpf_driver_unloading_flag = False,
      ebpf_execution_context_privileged_security_descriptor = None\<rparr>"

section \<open>netebpfext/net_ebpf_ext.h: filter contexts and their cleanup\<close>

definition NET_EBPF_EXT_MAX_CLIENTS_PER_HOOK_MULTI_ATTACH :: "32 word" where
  "NET_EBPF_EXT_MAX_CLIENTS_PER_HOOK_MULTI_ATTACH = 16"

definition NET_EBPF_EXT_MAX_CLIENTS_PER_HOOK_SINGLE_ATTACH :: "32 word" where
  "NET_EBPF_EXT_MAX_CLIENTS_PER_HOOK_SINGLE_ATTACH = 1"

datatype net_ebpf_ext_wfp_filter_state =
    NET_EBPF_EXT_WFP_FILTER_ADDED
  | NET_EBPF_EXT_WFP_FILTER_DELETING
  | NET_EBPF_EXT_WFP_FILTER_DELETED
  | NET_EBPF_EXT_WFP_FILTER_DELETE_FAILED

record net_ebpf_ext_wfp_filter_id =
  name :: string
  filter_id :: "64 word"
  state :: net_ebpf_ext_wfp_filter_state
  error_code :: NTSTATUS

text \<open>
  Pointers are addresses; a nullable pointer is an \<open>option\<close>. Hook clients, hook providers
  and WFP engine handles are opaque.
\<close>

type_synonym address = nat
type_synonym hook_client = nat
type_synonym hook_provider = nat
type_synonym HANDLE = nat

text \<open>
  The filter context. Its \<open>link\<close> field is the context's membership in the cleanup list
  below; the lock is not part of this sequential model. \<open>client_contexts\<close> holds the
  attached clients, the first \<open>client_context_count\<close> slots of the array.
\<close>

record net_ebpf_extension_wfp_filter_context =
  reference_count :: "32 word"
  client_context_count_max :: "32 word"
  client_contexts :: "hook_client list option"
  client_context_count :: "32 word"
  provider_context :: hook_provider
  filter_ids :: "net_ebpf_ext_wfp_filter_id list option"
  filter_ids_count :: "32 word"
  context_deleting :: bool
  wildcard :: bool
  initialized :: bool
  wfp_engine_handle :: "HANDLE option"

record net_ebpf_extension_wfp_cleanup_state =
  provider_context_cleanup_list :: "hook_provider list"
  filter_cleanup_list :: "address list"
  signal_empty_filter_list :: bool
  wfp_filter_cleanup_event :: bool

datatype extension_event =
    Leave_rundown hook_provider
  | Remove_from_cleanup_list address
  | KeSetEvent
  | ExFreePool_filter_ids address
  | ExFreePool_client_contexts address
  | FwpmEngineClose HANDLE
  | ExFreePool_filter_context address

text \<open>
  The state the macros work on: the allocated filter contexts, the cleanup state and the
  calls made so far, in order.
\<close>

record extension_state =
  pool :: "address \<rightharpoonup> net_ebpf_extension_wfp_filter_context"
  wfp_cleanup_state :: net_ebpf_extension_wfp_cleanup_state
  trace :: "extension_event list"

text \<open>
  Modelled from the spec: the body of \<open>net_ebpf_extension_hook_provider_leave_rundown\<close> is
  not among the sources. The spec says only that the resource's provider reference is
  released at finalization; the model records the release.
\<close>

definition net_ebpf_extension_hook_provider_leave_rundown ::
  "hook_provider \<Rightarrow> extension_state \<Rightarrow> extension_state" where
  "net_ebpf_extension_hook_provider_leave_rundown provider s =
     s\<lparr>trace := trace s @ [Leave_rundown provider]\<rparr>"

text \<open>
  Modelled from the spec: the body of
  \<open>net_ebpf_ext_remove_filter_context_from_cleanup_list\<close> is not among the sources. Its
  declaration says it removes a filter context from the cleanup list; the spec adds that
  the unregister that empties the list fires the drain signal when the signal-empty flag
  is armed.
\<close>

definition net_ebpf_ext_remove_filter_context_from_cleanup_list ::
  "address \<Rightarrow> extension_state \<Rightarrow> extension_state" where
  "net_ebpf_ext_remove_filter_context_from_cleanup_list filter_context s =
     (let cleanup = wfp_cleanup_state s;
          called = s\<lparr>trace := trace s @ [Remove_from_cleanup_list filter_context]\<rparr>
      in if filter_context \<in> set (filter_cleanup_list cleanup)
         then let remaining = removeAll filter_context (filter_cleanup_list cleanup)
              in if signal_empty_filter_list cleanup \<and> remaining = []
                 then called\<lparr>wfp_cleanup_state :=
                               cleanup\<lparr>filter_cleanup_list := remaining,
                                       wfp_filter_cleanup_event := True\<rparr>,
                             trace := trace called @ [KeSetEvent]\<rparr>
                 else called\<lparr>wfp_cleanup_state := cleanup\<lparr>filter_cleanup_list := remaining\<rparr>\<rparr>
         else called)"

text \<open>The calls \<open>CLEAN_UP_FILTER_CONTEXT\<close> makes after the removal from the cleanup list.\<close>

definition cleanup_frees ::
  "address \<Rightarrow> net_ebpf_extension_wfp_filter_context \<Rightarrow> extension_event list" where
  "cleanup_frees a ctx =
     (if filter_ids ctx \<noteq> None then [ExFreePool_filter_ids a] else []) @
     (if client_contexts ctx \<noteq> None then [ExFreePool_client_contexts a] else []) @
     (case wfp_engine_handle ctx of None \<Rightarrow> [] | Some h \<Rightarrow> [FwpmEngineClose h]) @
     [ExFreePool_filter_context a]"

definition CLEAN_UP_FILTER_CONTEXT ::
  "address option \<Rightarrow> extension_state \<Rightarrow> fault + extension_state" where
  "CLEAN_UP_FILTER_CONTEXT filter_context s =
     (case filter_context of
        None \<Rightarrow> Inl Assertion_failed
      | Some a \<Rightarrow>
          (case pool s a of
             None \<Rightarrow> Inl Invalid_access
           | Some ctx \<Rightarrow>
               let removed = net_ebpf_ext_remove_filter_context_from_cleanup_list a s
               in Inr (removed\<lparr>pool := (pool removed)(a := None),
                               trace := trace removed @ cleanup_frees a ctx\<rparr>)))"

definition REFERENCE_FILTER_CONTEXT ::
  "address option \<Rightarrow> extension_state \<Rightarrow> fault + extension_state" where
  "REFERENCE_FILTER_CONTEXT filter_context s =
     (case filter_context of
        None \<Rightarrow> Inr s
      | Some a \<Rightarrow>
          (case pool s a of
             None \<Rightarrow> Inl Invalid_access
           | Some ctx \<Rightarrow>
               Inr (s\<lparr>pool := (pool s)(a \<mapsto> ctx\<lparr>reference_count := reference_count ctx + 1\<rparr>)\<rparr>)))"

definition DEREFERENCE_FILTER_CONTEXT ::
  "address option \<Rightarrow> extension_state \<Rightarrow> fault + extension_state" where
  "DEREFERENCE_FILTER_CONTEXT filter_context s =
     (case filter_context of
        None \<Rightarrow> Inr s
      | Some a \<Rightarrow>
          (case pool s a of
             None \<Rightarrow> Inl Invalid_access
           | Some ctx \<Rightarrow>
               let decremented = reference_count ctx - 1;
                   s1 = s\<lparr>pool := (pool s)(a \<mapsto> ctx\<lparr>reference_count := decremented\<rparr>)\<rparr>
               in if decremented = 0
                  then CLEAN_UP_FILTER_CONTEXT (Some a)
                         (net_ebpf_extension_hook_provider_leave_rundown
                            (provider_context ctx) s1)
                  else Inr s1))"

text \<open>
  A filter context with one reference left whose only WFP filter is still being deleted,
  on the cleanup list, in an otherwise empty state.
\<close>

definition deleting_context :: net_ebpf_extension_wfp_filter_context where
  "deleting_context =
     \<lparr>reference_count = 1, client_context_count_max = 16, client_contexts = Some [],
      client_context_count = 0, provider_context = 5,
      filter_ids = Some [\<lparr>name = ''filter'', filter_id = 77,
                          state = NET_EBPF_EXT_WFP_FILTER_DELETING, error_code = 0\<rparr>],
      filter_ids_count = 1, context_deleting = True, wildcard = False, initialized = True,
      wfp_engine_handle = Some 9\<rparr>"

definition deleting_state :: extension_state where
  "deleting_state =
     \<lparr>pool = [3 \<mapsto> deleting_context],
      wfp_cleanup_state =
        \<lparr>provider_context_cleanup_list = [], filter_cleanup_list = [3],
         signal_empty_filter_list = False, wfp_filter_cleanup_event = False\<rparr>,
      trace = []\<rparr>"

section \<open>netebpfext/net_ebpf_ext.h: the end of a filter context's life\<close>

text \<open>
  The rule records of a filter context whose deletion has been requested and has not
  been reported yet, by their index in the filter-id array.
\<close>

definition pending_deletions :: "net_ebpf_extension_wfp_filter_context \<Rightarrow> nat list" where
  "pending_deletions ctx =
     (case filter_ids ctx of
        None \<Rightarrow> []
      | Some ids \<Rightarrow>
          filter (\<lambda>i. state (ids ! i) = NET_EBPF_EXT_WFP_FILTER_DELETING) [0..<length ids])"

text \<open>
  Modelled from the spec: \<open>net_ebpf_ext_filter_change_notify\<close> is only declared among the
  sources. This is its case for the deletion of a filter, for the filter context the
  filter carries and the index of the filter's record. The spec has the rule deletion
  callback update that rule's record and, if it was the resource's last outstanding rule,
  remove the resource from the cleanup list. The source folds the spec's two release
  signals into the one manual reference count (spec, design notes): the pending deletion
  of a rule holds a reference on its filter context, and the callback gives it back with
  \<open>DEREFERENCE_FILTER_CONTEXT\<close>.
\<close>

definition net_ebpf_ext_filter_change_notify ::
  "address \<Rightarrow> nat \<Rightarrow> extension_state \<Rightarrow> fault + extension_state" where
  "net_ebpf_ext_filter_change_notify filter_context i s =
     (case pool s filter_context of
        None \<Rightarrow> Inl Invalid_access
      | Some ctx \<Rightarrow>
          (case filter_ids ctx of
             None \<Rightarrow> Inl Invalid_access
           | Some ids \<Rightarrow>
               if i < length ids
               then
                 let reported =
                       ctx\<lparr>filter_ids :=
                             Some (ids[i := (ids ! i)\<lparr>state := NET_EBPF_EXT_WFP_FILTER_DELETED\<rparr>])\<rparr>;
                     s1 = s\<lparr>pool := (pool s)(filter_context \<mapsto> reported)\<rparr>;
                     s2 = (if pending_deletions reported = []
                           then net_ebpf_ext_remove_filter_context_from_cleanup_list
                                  filter_context s1
                           else s1)
                 in DEREFERENCE_FILTER_CONTEXT (Some filter_context) s2
               else Inl Invalid_access))"

text \<open>
  What gives a reference on a filter context back: the release of a reference held by an
  attached client or an invocation, and the deletion callback of one of its rules. A run
  is a sequence of them on one filter context, in the order they happen to arrive.
\<close>

datatype lifecycle_event = Release | Rule_deleted nat

fun lifecycle_step ::
  "address \<Rightarrow> lifecycle_event \<Rightarrow> extension_state \<Rightarrow> fault + extension_state" where
  "lifecycle_step a Release s = DEREFERENCE_FILTER_CONTEXT (Some a) s"
| "lifecycle_step a (Rule_deleted i) s = net_ebpf_ext_filter_change_notify a i s"

fun lifecycle_run ::
  "address \<Rightarrow> lifecycle_event list \<Rightarrow> extension_state \<Rightarrow> fault + extension_state" where
  "lifecycle_run a [] s = Inr s"
| "lifecycle_run a (e # es) s =
     (case lifecycle_step a e s of
        Inl f \<Rightarrow> Inl f
      | Inr s' \<Rightarrow> lifecycle_run a es s')"

fun callbacks :: "lifecycle_event list \<Rightarrow> nat list" where
  "callbacks [] = []"
| "callbacks (Release # es) = callbacks es"
| "callbacks (Rule_deleted i # es) = i # callbacks es"

fun releases :: "lifecycle_event list \<Rightarrow> nat" where
  "releases [] = 0"
| "releases (Release # es) = Suc (releases es)"
| "releases (Rule_deleted i # es) = releases es"

text \<open>
  A filter context in deletion: one reference held by a client, three rules whose
  deletion is pending, each holding a reference; the context is on the cleanup list and
  the signal-empty flag is armed.
\<close>

definition pending_rule :: "64 word \<Rightarrow> net_ebpf_ext_wfp_filter_id" where
  "pending_rule n =
     \<lparr>name = ''filter'', filter_id = n, state = NET_EBPF_EXT_WFP_FILTER_DELETING,
      error_code = 0\<rparr>"

definition pending_context :: net_ebpf_extension_wfp_filter_context where
  "pending_context =
     \<lparr>reference_count = 4, client_context_count_max = 16, client_contexts = Some [21],
      client_context_count = 1, provider_context = 5,
      filter_ids = Some [pending_rule 71, pending_rule 72, pending_rule 73],
      filter_ids_count = 3, context_deleting = True, wildcard = False, initialized = True,
      wfp_engine_handle = Some 9\<rparr>"

definition pending_state :: extension_state where
  "pending_state =
     \<lparr>pool = [3 \<mapsto> pending_context],
      wfp_cleanup_state =
        \<lparr>provider_context_cleanup_list = [], filter_cleanup_list = [3],
         signal_empty_filter_list = True, wfp_filter_cleanup_event = False\<rparr>,
      trace = []\<rparr>"

section \<open>netebpfext/net_ebpf_ext.h: attaching clients\<close>

text \<open>The two results the declaration of \<open>net_ebpf_ext_add_client_context\<close> names.\<close>

datatype ebpf_result_t = EBPF_SUCCESS | EBPF_NO_MEMORY

text \<open>
  Modelled from the spec: the body of \<open>net_ebpf_ext_add_client_context\<close> is not among the
  sources, only its declaration (\<open>EBPF_SUCCESS\<close>: the client context was added;
  \<open>EBPF_NO_MEMORY\<close>: no more client contexts can be added). The spec has attach fail with
  NoMemory when the client array, of fixed capacity since construction, is full, and
  otherwise add the client.
\<close>

definition net_ebpf_ext_add_client_context ::
  "net_ebpf_extension_wfp_filter_context \<Rightarrow> hook_client
     \<Rightarrow> ebpf_result_t \<times> net_ebpf_extension_wfp_filter_context" where
  "net_ebpf_ext_add_client_context filter_context hook_client =
     (if client_context_count filter_context < client_context_count_max filter_context
      then (EBPF_SUCCESS,
            filter_context
              \<lparr>client_contexts :=
                 map_option (\<lambda>clients. clients @ [hook_client]) (client_contexts filter_context),
               client_context_count := client_context_count filter_context + 1\<rparr>)
      else (EBPF_NO_MEMORY, filter_context))"

text \<open>Attach calls one after the other, with the result of each.\<close>

fun attach_all ::
  "net_ebpf_extension_wfp_filter_context \<Rightarrow> hook_client list
     \<Rightarrow> ebpf_result_t list \<times> net_ebpf_extension_wfp_filter_context" where
  "attach_all filter_context [] = ([], filter_context)"
| "attach_all filter_context (hook_client # rest) =
     (case net_ebpf_ext_add_client_context filter_context hook_client of
        (result, attached) \<Rightarrow>
          (case attach_all attached rest of
             (results, final) \<Rightarrow> (result # results, final)))"

text \<open>A filter context with no client yet and room for the given number of clients.\<close>

definition empty_context :: "32 word \<Rightarrow> net_ebpf_extension_wfp_filter_context" where
  "empty_context capacity =
     \<lparr>reference_count = 1, client_context_count_max = capacity, client_contexts = Some [],
      client_context_count = 0, provider_context = 5, filter_ids = None,
      filter_ids_count = 0, context_deleting = False, wildcard = False, initialized = True,
      wfp_engine_handle = None\<rparr>"

section \<open>Properties of the dispatcher\<close>

lemma NT_SUCCESS_simps [simp]:
  "NT_SUCCESS STATUS_SUCCESS" "NT_SUCCESS STATUS_PENDING"
  "\<not> NT_SUCCESS STATUS_INVALID_PARAMETER" "\<not> NT_SUCCESS STATUS_ACCESS_DENIED"
  "\<not> NT_SUCCESS STATUS_BUFFER_TOO_SMALL" "\<not> NT_SUCCESS STATUS_INSUFFICIENT_RESOURCES"
  "\<not> NT_SUCCESS STATUS_INVALID_DEVICE_REQUEST"
  by (simp_all add: NT_SUCCESS_def STATUS_SUCCESS_def STATUS_PENDING_def
      STATUS_INVALID_PARAMETER_def STATUS_ACCESS_DENIED_def STATUS_BUFFER_TOO_SMALL_def
      STATUS_INSUFFICIENT_RESOURCES_def STATUS_INVALID_DEVICE_REQUEST_def)

lemma status_distinct [simp]:
  "STATUS_INVALID_PARAMETER \<noteq> STATUS_PENDING" "STATUS_ACCESS_DENIED \<noteq> STATUS_PENDING"
  "STATUS_BUFFER_TOO_SMALL \<noteq> STATUS_PENDING" "STATUS_INVALID_DEVICE_REQUEST \<noteq> STATUS_PENDING"
  "STATUS_SUCCESS \<noteq> STATUS_PENDING"
  "STATUS_INVALID_PARAMETER \<noteq> STATUS_SUCCESS" "STATUS_ACCESS_DENIED \<noteq> STATUS_SUCCESS"
  "STATUS_BUFFER_TOO_SMALL \<noteq> STATUS_SUCCESS"
  by (simp_all add: STATUS_SUCCESS_def STATUS_PENDING_def
      STATUS_INVALID_PARAMETER_def STATUS_ACCESS_DENIED_def STATUS_BUFFER_TOO_SMALL_def
      STATUS_INVALID_DEVICE_REQUEST_def)

lemma Done_failed [simp]:
  "status \<noteq> STATUS_PENDING \<Longrightarrow>
   Done checked status False output_buffer_length events =
     Inr (events @ [WdfRequestCompleteWithInformation status output_buffer_length])"
  by (simp add: Done_def)

text \<open>
  C5. A request on the eBPF control code whose input length is zero, or whose retrieved
  input is shorter than the operation header, is completed with
  \<open>STATUS_INVALID_PARAMETER\<close>, and that completion is all that happens: the protocol
  handler is not invoked.
\<close>

theorem short_input_invalid_parameter:
  assumes "io_control_code = IOCTL_EBPF_CTL_METHOD_BUFFERED"
    and "input_buffer_length = 0 \<or>
         (\<exists>status input_buffer actual_input_length.
            WdfRequestRetrieveInputBuffer env input_buffer_length =
              (status, input_buffer, actual_input_length) \<and>
            NT_SUCCESS status \<and> actual_input_length < sizeof_ebpf_operation_header env)"
  shows "ebpf_driver_io_device_control env g output_buffer_length input_buffer_length
           io_control_code =
         Inr [WdfRequestCompleteWithInformation STATUS_INVALID_PARAMETER output_buffer_length]"
  using assms
  by (auto simp: ebpf_driver_io_device_control_def split: option.splits)

theorem short_input_invalid_parameter_witness:
  "ebpf_driver_io_device_control (sample_env 1 False) no_globals 64 0 IOCTL_EBPF_CTL_METHOD_BUFFERED =
     Inr [WdfRequestCompleteWithInformation STATUS_INVALID_PARAMETER 64] \<and>
   ebpf_driver_io_device_control (sample_env 1 False) no_globals 64 7 IOCTL_EBPF_CTL_METHOD_BUFFERED =
     Inr [WdfRequestCompleteWithInformation STATUS_INVALID_PARAMETER 64]"
proof -
  have short: "\<exists>status input_buffer actual_input_length.
      WdfRequestRetrieveInputBuffer (sample_env 1 False) 7 = (status, input_buffer, actual_input_length) \<and>
      NT_SUCCESS status \<and> actual_input_length < sizeof_ebpf_operation_header (sample_env 1 False)"
    by (simp add: sample_env_def)
  show ?thesis
    using short_input_invalid_parameter
            [of IOCTL_EBPF_CTL_METHOD_BUFFERED 0 "sample_env 1 False" no_globals 64]
          short_input_invalid_parameter
            [of IOCTL_EBPF_CTL_METHOD_BUFFERED 7 "sample_env 1 False" no_globals 64] short
    by simp
qed

text \<open>
  C4. Once the request has a header and the core knows its operation, a descriptor with
  the privilege flag and a failed capability check end the request with the single
  completion \<open>STATUS_ACCESS_DENIED\<close>: no reference is taken, the request is not marked
  cancelable and the protocol handler is not invoked. The dispatcher only reads the
  driver's globals.
\<close>

theorem unprivileged_caller_access_denied:
  assumes "io_control_code = IOCTL_EBPF_CTL_METHOD_BUFFERED"
    and "input_buffer_length \<noteq> 0"
    and "WdfRequestRetrieveInputBuffer env input_buffer_length =
           (status, Some user_request, actual_input_length)"
    and "NT_SUCCESS status"
    and "\<not> actual_input_length < sizeof_ebpf_operation_header env"
    and "ebpf_core_get_protocol_handler_properties env (id_field user_request) =
           (result, minimum_request_size, minimum_reply_size, async, True)"
    and "ebpf_result_to_ntstatus env result = STATUS_SUCCESS"
    and "\<not> ebpf_driver_is_caller_privileged (SeAccessCheck env) g"
  shows "ebpf_driver_io_device_control env g output_buffer_length input_buffer_length
           io_control_code =
         Inr [WdfRequestCompleteWithInformation STATUS_ACCESS_DENIED output_buffer_length]"
  using assms by (simp add: ebpf_driver_io_device_control_def)

theorem unprivileged_caller_access_denied_witness:
  "ebpf_driver_io_device_control (sample_env 1 False) no_globals 64 8
     IOCTL_EBPF_CTL_METHOD_BUFFERED =
   Inr [WdfRequestCompleteWithInformation STATUS_ACCESS_DENIED 64]"
proof -
  have input: "WdfRequestRetrieveInputBuffer (sample_env 1 False) 8 =
      (STATUS_SUCCESS, Some \<lparr>length_field = 8, id_field = 1\<rparr>, 8)"
    by (simp add: sample_env_def)
  have size: "\<not> (8 :: size_t) < sizeof_ebpf_operation_header (sample_env 1 False)"
    by (simp add: sample_env_def)
  have properties: "ebpf_core_get_protocol_handler_properties (sample_env 1 False)
      (id_field \<lparr>length_field = 8, id_field = 1\<rparr>) = (STATUS_SUCCESS, 8, 16, False, True)"
    by (simp add: sample_env_def)
  have converted: "ebpf_result_to_ntstatus (sample_env 1 False) STATUS_SUCCESS = STATUS_SUCCESS"
    by (simp add: sample_env_def)
  have denied: "\<not> ebpf_driver_is_caller_privileged (SeAccessCheck (sample_env 1 False)) no_globals"
    by (simp add: sample_env_def ebpf_driver_is_caller_privileged_def)
  have nonzero: "(8 :: size_t) \<noteq> 0" by simp
  show ?thesis
    by (rule unprivileged_caller_access_denied
          [OF refl nonzero input NT_SUCCESS_simps(1) size properties converted denied])
qed

lemma reached_reply_check:
  assumes "io_control_code = IOCTL_EBPF_CTL_METHOD_BUFFERED"
    and "input_buffer_length \<noteq> 0"
    and "WdfRequestRetrieveInputBuffer env input_buffer_length =
           (status, Some user_request, actual_input_length)"
    and "NT_SUCCESS status"
    and "\<not> actual_input_length < sizeof_ebpf_operation_header env"
    and "ebpf_core_get_protocol_handler_properties env (id_field user_request) =
           (result, minimum_request_size, minimum_reply_size, async, privileged)"
    and "ebpf_result_to_ntstatus env result = STATUS_SUCCESS"
    and "privileged \<longrightarrow> ebpf_driver_is_caller_privileged (SeAccessCheck env) g"
  shows "ebpf_driver_io_device_control env g output_buffer_length input_buffer_length
           io_control_code =
         (case retrieve_reply env output_buffer_length minimum_reply_size of
            Inl status \<Rightarrow> Done (ebpf_assert_checked env) status False output_buffer_length []
          | Inr (user_reply, actual_output_length) \<Rightarrow>
              invoke_handler env (id_field user_request) actual_input_length user_reply
                actual_output_length async output_buffer_length)"
  using assms by (auto simp: ebpf_driver_io_device_control_def)

text \<open>
  C6. For a request that has passed the header, lookup and privilege checks: when the
  descriptor's minimum reply size is nonzero and the retrieved output buffer is shorter
  than it, the request is completed with \<open>STATUS_BUFFER_TOO_SMALL\<close> and the handler is not
  invoked; when the minimum reply size is zero the output buffer is not even retrieved,
  and the handler is invoked with a null reply of length zero whatever the retrieval
  would have answered.
\<close>

theorem small_output_buffer_too_small:
  assumes "io_control_code = IOCTL_EBPF_CTL_METHOD_BUFFERED"
    and "input_buffer_length \<noteq> 0"
    and "WdfRequestRetrieveInputBuffer env input_buffer_length =
           (status, Some user_request, actual_input_length)"
    and "NT_SUCCESS status"
    and "\<not> actual_input_length < sizeof_ebpf_operation_header env"
    and "ebpf_core_get_protocol_handler_properties env (id_field user_request) =
           (result, minimum_request_size, minimum_reply_size, async, privileged)"
    and "ebpf_result_to_ntstatus env result = STATUS_SUCCESS"
    and "privileged \<longrightarrow> ebpf_driver_is_caller_privileged (SeAccessCheck env) g"
  shows "(minimum_reply_size > 0 \<and>
          WdfRequestRetrieveOutputBuffer env output_buffer_length =
            (out_status, Some output_buffer, actual_output_length) \<and>
          NT_SUCCESS out_status \<and> actual_output_length < minimum_reply_size \<longrightarrow>
          ebpf_driver_io_device_control env g output_buffer_length input_buffer_length
            io_control_code =
          Inr [WdfRequestCompleteWithInformation STATUS_BUFFER_TOO_SMALL output_buffer_length])
       \<and> (minimum_reply_size = 0 \<longrightarrow>
          ebpf_driver_io_device_control env g output_buffer_length input_buffer_length
            io_control_code =
          invoke_handler env (id_field user_request) actual_input_length None 0 async
            output_buffer_length \<and>
          ebpf_driver_io_device_control (env\<lparr>WdfRequestRetrieveOutputBuffer := other\<rparr>) g
            output_buffer_length input_buffer_length io_control_code =
          ebpf_driver_io_device_control env g output_buffer_length input_buffer_length
            io_control_code)"
proof (intro conjI impI)
  assume small: "minimum_reply_size > 0 \<and>
      WdfRequestRetrieveOutputBuffer env output_buffer_length =
        (out_status, Some output_buffer, actual_output_length) \<and>
      NT_SUCCESS out_status \<and> actual_output_length < minimum_reply_size"
  then have "retrieve_reply env output_buffer_length minimum_reply_size =
      Inl STATUS_BUFFER_TOO_SMALL"
    by (simp add: retrieve_reply_def)
  then show "ebpf_driver_io_device_control env g output_buffer_length input_buffer_length
      io_control_code =
      Inr [WdfRequestCompleteWithInformation STATUS_BUFFER_TOO_SMALL output_buffer_length]"
    by (simp add: reached_reply_check [OF assms])
next
  assume none: "minimum_reply_size = 0"
  then have reply: "retrieve_reply env output_buffer_length minimum_reply_size = Inr (None, 0)"
    by (simp add: retrieve_reply_def)
  then show "ebpf_driver_io_device_control env g output_buffer_length input_buffer_length
      io_control_code =
      invoke_handler env (id_field user_request) actual_input_length None 0 async
        output_buffer_length"
    by (simp add: reached_reply_check [OF assms])
next
  assume none: "minimum_reply_size = 0"
  let ?env = "env\<lparr>WdfRequestRetrieveOutputBuffer := other\<rparr>"
  have "ebpf_driver_io_device_control ?env g output_buffer_length input_buffer_length
      io_control_code =
      (case retrieve_reply ?env output_buffer_length minimum_reply_size of
         Inl status \<Rightarrow> Done (ebpf_assert_checked ?env) status False output_buffer_length []
       | Inr (user_reply, actual_output_length) \<Rightarrow>
           invoke_handler ?env (id_field user_request) actual_input_length user_reply
             actual_output_length async output_buffer_length)"
    using assms by (intro reached_reply_check [where status = status]) simp_all
  moreover have "retrieve_reply ?env output_buffer_length minimum_reply_size = Inr (None, 0)"
    using none by (simp add: retrieve_reply_def)
  moreover have "invoke_handler ?env (id_field user_request) actual_input_length None 0 async
      output_buffer_length =
      invoke_handler env (id_field user_request) actual_input_length None 0 async
        output_buffer_length"
    by (simp add: invoke_handler_def)
  moreover have "retrieve_reply env output_buffer_length minimum_reply_size = Inr (None, 0)"
    using none by (simp add: retrieve_reply_def)
  ultimately show "ebpf_driver_io_device_control ?env g output_buffer_length
      input_buffer_length io_control_code =
      ebpf_driver_io_device_control env g output_buffer_length input_buffer_length
        io_control_code"
    by (simp add: reached_reply_check [OF assms])
qed

lemma sample_env_input:
  "WdfRequestRetrieveInputBuffer (sample_env i c) 8 =
     (STATUS_SUCCESS, Some \<lparr>length_field = 8, id_field = i\<rparr>, 8)"
  "\<not> (8 :: size_t) < sizeof_ebpf_operation_header (sample_env i c)"
  "ebpf_result_to_ntstatus (sample_env i c) STATUS_SUCCESS = STATUS_SUCCESS"
  by (simp_all add: sample_env_def)

lemma sample_env_properties:
  "ebpf_core_get_protocol_handler_properties (sample_env 1 c) (id_field \<lparr>length_field = 8, id_field = 1\<rparr>) =
     (STATUS_SUCCESS, 8, 16, False, True)"
  "ebpf_core_get_protocol_handler_properties (sample_env 2 c) (id_field \<lparr>length_field = 8, id_field = 2\<rparr>) =
     (STATUS_SUCCESS, 8, 0, True, False)"
  by (simp_all add: sample_env_def)

lemma sample_env_privileged:
  "ebpf_driver_is_caller_privileged (SeAccessCheck (sample_env i True)) no_globals"
  by (simp add: sample_env_def ebpf_driver_is_caller_privileged_def)

theorem small_output_buffer_too_small_witness:
  "ebpf_driver_io_device_control (sample_env 1 True) no_globals 8 8
     IOCTL_EBPF_CTL_METHOD_BUFFERED =
   Inr [WdfRequestCompleteWithInformation STATUS_BUFFER_TOO_SMALL 8] \<and>
   ebpf_driver_io_device_control (sample_env 2 False) no_globals 0 8
     IOCTL_EBPF_CTL_METHOD_BUFFERED =
   Inr [WdfObjectReference, WdfRequestMarkCancelable,
        Invoke_protocol_handler 2 8 False 0 True,
        WdfRequestUnmarkCancelable, WdfObjectDereference,
        WdfRequestCompleteWithInformation STATUS_INVALID_PARAMETER 0]"
proof -
  have nonzero: "(8 :: size_t) \<noteq> 0" by simp
  have short_output: "(16 :: size_t) > 0 \<and>
      WdfRequestRetrieveOutputBuffer (sample_env 1 True) 8 = (STATUS_SUCCESS, Some 0, 8) \<and>
      NT_SUCCESS STATUS_SUCCESS \<and> (8 :: size_t) < 16"
    by (simp add: sample_env_def)
  have privileged: "True \<longrightarrow>
      ebpf_driver_is_caller_privileged (SeAccessCheck (sample_env 1 True)) no_globals"
    by (simp add: sample_env_privileged)
  have unprivileged: "False \<longrightarrow>
      ebpf_driver_is_caller_privileged (SeAccessCheck (sample_env 2 False)) no_globals"
    by simp
  have first: "ebpf_driver_io_device_control (sample_env 1 True) no_globals 8 8
      IOCTL_EBPF_CTL_METHOD_BUFFERED =
      Inr [WdfRequestCompleteWithInformation STATUS_BUFFER_TOO_SMALL 8]"
    using small_output_buffer_too_small
            [OF refl nonzero sample_env_input(1) NT_SUCCESS_simps(1) sample_env_input(2)
                sample_env_properties(1) sample_env_input(3) privileged,
             where out_status = STATUS_SUCCESS and output_buffer = 0
               and actual_output_length = 8 and output_buffer_length = 8]
          short_output
    by blast
  have "ebpf_driver_io_device_control (sample_env 2 False) no_globals 0 8
      IOCTL_EBPF_CTL_METHOD_BUFFERED =
      invoke_handler (sample_env 2 False) (id_field \<lparr>length_field = 8, id_field = 2\<rparr>) 8 None 0 True 0"
    using small_output_buffer_too_small
            [OF refl nonzero sample_env_input(1) NT_SUCCESS_simps(1) sample_env_input(2)
                sample_env_properties(2) sample_env_input(3) unprivileged,
             where output_buffer_length = 0]
    by blast
  moreover have "invoke_handler (sample_env 2 False) (id_field \<lparr>length_field = 8, id_field = 2\<rparr>) 8
      None 0 True 0 =
      Inr [WdfObjectReference, WdfRequestMarkCancelable,
           Invoke_protocol_handler 2 8 False 0 True,
           WdfRequestUnmarkCancelable, WdfObjectDereference,
           WdfRequestCompleteWithInformation STATUS_INVALID_PARAMETER 0]"
    by (simp add: invoke_handler_def sample_env_def Done_def)
  ultimately show ?thesis using first by simp
qed




section \<open>Properties of the privileged security descriptor\<close>

lemma set_subauthorities_built: "set_subauthorities 0 initialized_sid = built_sid"
  by code_simp

lemma build_success:
  assumes "every_call_succeeds env"
  shows "ebpf_driver_build_privileged_security_descriptor env g =
           (RtlAbsoluteToSelfRelativeSD env,
            g\<lparr>ebpf_execution_context_privileged_security_descriptor := Some built_descriptor\<rparr>,
            [Allocate Sid_memory, Allocate Dacl_memory, Allocate Security_descriptor_memory,
             Free Sid_memory, Free Dacl_memory])"
  using assms
  by (simp add: every_call_succeeds_def ebpf_driver_build_privileged_security_descriptor_def
      set_subauthorities_built built_descriptor_def build_exit_def del: set_subauthorities.simps)

lemma build_failure:
  assumes "\<not> every_call_succeeds env"
  shows "fst (snd (ebpf_driver_build_privileged_security_descriptor env g)) = g"
  using assms
  by (simp add: every_call_succeeds_def ebpf_driver_build_privileged_security_descriptor_def
      Let_def del: set_subauthorities.simps)

lemma build_status:
  assumes "NT_SUCCESS (fst (ebpf_driver_build_privileged_security_descriptor env g))"
      and "RtlAbsoluteToSelfRelativeSD_size env = STATUS_BUFFER_TOO_SMALL"
  shows "every_call_succeeds env"
  using assms
  by (simp add: every_call_succeeds_def ebpf_driver_build_privileged_security_descriptor_def
      Let_def del: set_subauthorities.simps split: if_splits)

lemma initialize_success:
  assumes "NT_SUCCESS (fst (ebpf_driver_initialize_objects ienv env g))"
      and "RtlAbsoluteToSelfRelativeSD_size env = STATUS_BUFFER_TOO_SMALL"
  shows "ebpf_driver_initialize_objects ienv env g =
           (RtlAbsoluteToSelfRelativeSD env,
            g\<lparr>ebpf_execution_context_privileged_security_descriptor := Some built_descriptor\<rparr>,
            [Core_initiate, Allocate Sid_memory, Allocate Dacl_memory,
             Allocate Security_descriptor_memory, Free Sid_memory, Free Dacl_memory,
             WdfControlFinishInitializing])"
proof -
  have pre: "NT_SUCCESS (WdfDriverCreate ienv)" "NT_SUCCESS (ebpf_driver_initialize_device ienv)"
    "NT_SUCCESS (WdfIoQueueCreate ienv)" "NT_SUCCESS (ebpf_core_initiate ienv)"
    using assms(1) by (auto simp: ebpf_driver_initialize_objects_def split: if_splits)
  then have "NT_SUCCESS (fst (ebpf_driver_build_privileged_security_descriptor env g))"
    using assms(1) by (auto simp: ebpf_driver_initialize_objects_def split: if_splits prod.splits)
  then have "every_call_succeeds env" using assms(2) by (rule build_status)
  then show ?thesis using pre
    by (simp add: ebpf_driver_initialize_objects_def build_success initialize_exit_def every_call_succeeds_def)
qed

lemma privileged_iff:
  "ebpf_driver_is_caller_privileged check g \<longleftrightarrow>
     (\<exists>status. check (ebpf_execution_context_privileged_security_descriptor g) GENERIC_ALL =
          (True, GENERIC_ALL, status) \<and> NT_SUCCESS status)"
  by (auto simp: ebpf_driver_is_caller_privileged_def split: prod.splits)

lemma unload_releases:
  "ebpf_execution_context_privileged_security_descriptor (fst (ebpf_driver_unload g)) = None"
  "ebpf_execution_context_privileged_security_descriptor g \<noteq> None \<Longrightarrow>
     snd (ebpf_driver_unload g) = [Free Security_descriptor_memory, Core_terminate]"
  "ebpf_execution_context_privileged_security_descriptor g = None \<Longrightarrow>
     snd (ebpf_driver_unload g) = [Core_terminate]"
  by (auto simp: ebpf_driver_unload_def Let_def)

lemma granted_built_descriptor: "granted_generic_all (g\<lparr>ebpf_execution_context_privileged_security_descriptor := Some built_descriptor\<rparr>) = [built_sid]"
  by (simp add: granted_generic_all_def built_descriptor_def)

text \<open>
  The SID the builder assembles carries 80 as its identifier authority and five
  sub-authorities, so as a value it is not the SID written in the SDDL string, which
  carries 80 as the first of six sub-authorities under the identifier authority 5.
\<close>

lemma built_sid_differs_from_sddl_service_sid:
  "set_subauthorities 0 initialized_sid \<noteq> sddl_service_sid"
  by (simp add: set_subauthorities_built built_sid_def sddl_service_sid_def
      del: set_subauthorities.simps)

text \<open>
  C3, as the code has it. \<open>_ebpf_driver_is_caller_privileged\<close> answers true exactly when
  the access check of the caller against the driver's privileged descriptor, asked for
  \<open>GENERIC_ALL\<close>, returns true with a success status and grants exactly \<open>GENERIC_ALL\<close>. The
  descriptor is built by driver initialization: when every call of the builder succeeds
  it is installed, and it holds a single access-allowed entry, \<open>GENERIC_ALL\<close> for the one
  SID the builder assembles from \<open>service_authority\<close> and \<open>sid_subauthorities\<close>; when a
  call fails the global is left as it was. A successful initialization has built it once.
  Unloading the driver clears the global and frees the descriptor that was there.
\<close>

theorem privileged_descriptor_single_entry:
  "(ebpf_driver_is_caller_privileged check g \<longleftrightarrow>
      (\<exists>status. check (ebpf_execution_context_privileged_security_descriptor g) GENERIC_ALL =
           (True, GENERIC_ALL, status) \<and> NT_SUCCESS status))
   \<and> (every_call_succeeds env \<longrightarrow>
        ebpf_driver_build_privileged_security_descriptor env g =
          (RtlAbsoluteToSelfRelativeSD env,
           g\<lparr>ebpf_execution_context_privileged_security_descriptor := Some built_descriptor\<rparr>,
           [Allocate Sid_memory, Allocate Dacl_memory, Allocate Security_descriptor_memory,
            Free Sid_memory, Free Dacl_memory]))
   \<and> (\<not> every_call_succeeds env \<longrightarrow>
        fst (snd (ebpf_driver_build_privileged_security_descriptor env g)) = g)
   \<and> (NT_SUCCESS (fst (ebpf_driver_initialize_objects ienv env g)) \<and>
        RtlAbsoluteToSelfRelativeSD_size env = STATUS_BUFFER_TOO_SMALL \<longrightarrow>
        ebpf_driver_initialize_objects ienv env g =
          (RtlAbsoluteToSelfRelativeSD env,
           g\<lparr>ebpf_execution_context_privileged_security_descriptor := Some built_descriptor\<rparr>,
           [Core_initiate, Allocate Sid_memory, Allocate Dacl_memory,
            Allocate Security_descriptor_memory, Free Sid_memory, Free Dacl_memory,
            WdfControlFinishInitializing]))
   \<and> granted_generic_all
         (g\<lparr>ebpf_execution_context_privileged_security_descriptor := Some built_descriptor\<rparr>) =
       [built_sid]
   \<and> ebpf_execution_context_privileged_security_descriptor (fst (ebpf_driver_unload g)) = None
   \<and> (ebpf_execution_context_privileged_security_descriptor g \<noteq> None \<longrightarrow>
        snd (ebpf_driver_unload g) = [Free Security_descriptor_memory, Core_terminate])"
  using privileged_iff [of check g] build_success [of env g] build_failure [of env g]
    initialize_success [of ienv env g] granted_built_descriptor [of g]
    unload_releases(1) [of g] unload_releases(2) [of g]
  by blast

theorem privileged_descriptor_single_entry_witness:
  "ebpf_driver_is_caller_privileged (SeAccessCheck (sample_env 1 True))
     (no_globals\<lparr>ebpf_execution_context_privileged_security_descriptor := Some built_descriptor\<rparr>)
   \<and> ebpf_driver_initialize_objects successful_initialize successful_build no_globals =
       (STATUS_SUCCESS,
        no_globals\<lparr>ebpf_execution_context_privileged_security_descriptor := Some built_descriptor\<rparr>,
        [Core_initiate, Allocate Sid_memory, Allocate Dacl_memory,
         Allocate Security_descriptor_memory, Free Sid_memory, Free Dacl_memory,
         WdfControlFinishInitializing])
   \<and> ebpf_driver_build_privileged_security_descriptor successful_build no_globals =
       (STATUS_SUCCESS,
        no_globals\<lparr>ebpf_execution_context_privileged_security_descriptor := Some built_descriptor\<rparr>,
        [Allocate Sid_memory, Allocate Dacl_memory, Allocate Security_descriptor_memory,
         Free Sid_memory, Free Dacl_memory])
   \<and> snd (ebpf_driver_unload
          (no_globals\<lparr>ebpf_execution_context_privileged_security_descriptor :=
             Some built_descriptor\<rparr>)) =
       [Free Security_descriptor_memory, Core_terminate]"
proof -
  let ?g = "no_globals\<lparr>ebpf_execution_context_privileged_security_descriptor :=
              Some built_descriptor\<rparr>"
  have granted: "\<exists>status. SeAccessCheck (sample_env 1 True)
      (ebpf_execution_context_privileged_security_descriptor ?g) GENERIC_ALL =
      (True, GENERIC_ALL, status) \<and> NT_SUCCESS status"
    by (simp add: sample_env_def)
  have succeeds: "every_call_succeeds successful_build"
    by (simp add: every_call_succeeds_def successful_build_def)
  have status: "RtlAbsoluteToSelfRelativeSD successful_build = STATUS_SUCCESS"
    "RtlAbsoluteToSelfRelativeSD_size successful_build = STATUS_BUFFER_TOO_SMALL"
    by (simp_all add: successful_build_def)
  have installed: "ebpf_execution_context_privileged_security_descriptor ?g \<noteq> None"
    by simp
  have built: "ebpf_driver_build_privileged_security_descriptor successful_build no_globals =
      (STATUS_SUCCESS, ?g,
       [Allocate Sid_memory, Allocate Dacl_memory, Allocate Security_descriptor_memory,
        Free Sid_memory, Free Dacl_memory])"
    using privileged_descriptor_single_entry [of "SeAccessCheck (sample_env 1 True)" no_globals successful_build
              successful_initialize]
      succeeds status by simp
  have initialized: "NT_SUCCESS (fst (ebpf_driver_initialize_objects successful_initialize
      successful_build no_globals))"
    by (simp add: ebpf_driver_initialize_objects_def successful_initialize_def built
        initialize_exit_def)
  have "ebpf_driver_initialize_objects successful_initialize successful_build no_globals =
      (STATUS_SUCCESS, ?g,
       [Core_initiate, Allocate Sid_memory, Allocate Dacl_memory,
        Allocate Security_descriptor_memory, Free Sid_memory, Free Dacl_memory,
        WdfControlFinishInitializing])"
    using privileged_descriptor_single_entry
            [of "SeAccessCheck (sample_env 1 True)" no_globals successful_build
               successful_initialize]
      initialized status by simp
  moreover have "ebpf_driver_is_caller_privileged (SeAccessCheck (sample_env 1 True)) ?g"
    using privileged_descriptor_single_entry
            [of "SeAccessCheck (sample_env 1 True)" ?g successful_build successful_initialize]
      granted by blast
  moreover have "snd (ebpf_driver_unload ?g) = [Free Security_descriptor_memory, Core_terminate]"
    using privileged_descriptor_single_entry
            [of "SeAccessCheck (sample_env 1 True)" ?g successful_build
               successful_initialize] installed
    by blast
  ultimately show ?thesis using built by simp
qed

text \<open>
  Against C3 as stated: the descriptor a fully successful build installs does not list
  local system or the built-in administrators; its only entry is the SID the builder
  assembled.
\<close>

theorem privileged_descriptor_allow_list_counterexample:
  "NT_SUCCESS (fst (ebpf_driver_build_privileged_security_descriptor successful_build no_globals))
   \<and> granted_generic_all
         (fst (snd (ebpf_driver_build_privileged_security_descriptor successful_build
                      no_globals))) = [built_sid]
   \<and> local_system_sid \<notin>
       set (granted_generic_all
              (fst (snd (ebpf_driver_build_privileged_security_descriptor successful_build
                           no_globals))))
   \<and> builtin_administrators_sid \<notin>
       set (granted_generic_all
              (fst (snd (ebpf_driver_build_privileged_security_descriptor successful_build
                           no_globals))))"
proof -
  have "every_call_succeeds successful_build"
    by (simp add: every_call_succeeds_def successful_build_def)
  then show ?thesis
    by (simp add: build_success granted_built_descriptor successful_build_def built_sid_def
        local_system_sid_def builtin_administrators_sid_def)
qed

section \<open>Properties of the filter-context macros\<close>

lemma remove_trace:
  "trace (net_ebpf_ext_remove_filter_context_from_cleanup_list a s) =
     trace s @ Remove_from_cleanup_list a #
       (if a \<in> set (filter_cleanup_list (wfp_cleanup_state s)) \<and>
           signal_empty_filter_list (wfp_cleanup_state s) \<and>
           removeAll a (filter_cleanup_list (wfp_cleanup_state s)) = []
        then [KeSetEvent] else [])"
  by (simp add: net_ebpf_ext_remove_filter_context_from_cleanup_list_def Let_def)

lemma remove_list:
  "filter_cleanup_list (wfp_cleanup_state (net_ebpf_ext_remove_filter_context_from_cleanup_list a s)) =
     removeAll a (filter_cleanup_list (wfp_cleanup_state s))"
  by (simp add: net_ebpf_ext_remove_filter_context_from_cleanup_list_def Let_def)

lemma remove_pool:
  "pool (net_ebpf_ext_remove_filter_context_from_cleanup_list a s) = pool s"
  by (simp add: net_ebpf_ext_remove_filter_context_from_cleanup_list_def Let_def)

lemma clean_up_allocated:
  assumes "pool s a = Some ctx"
  shows "CLEAN_UP_FILTER_CONTEXT (Some a) s =
           Inr ((net_ebpf_ext_remove_filter_context_from_cleanup_list a s)
                  \<lparr>pool := (pool s)(a := None),
                   trace := trace (net_ebpf_ext_remove_filter_context_from_cleanup_list a s) @
                            cleanup_frees a ctx\<rparr>)"
  using assms by (simp add: CLEAN_UP_FILTER_CONTEXT_def Let_def remove_pool)

lemma dereference_keeps:
  assumes "pool s a = Some ctx" and "reference_count ctx \<noteq> 1"
  shows "DEREFERENCE_FILTER_CONTEXT (Some a) s =
           Inr (s\<lparr>pool := (pool s)(a \<mapsto> ctx\<lparr>reference_count := reference_count ctx - 1\<rparr>)\<rparr>)"
  using assms by (simp add: DEREFERENCE_FILTER_CONTEXT_def Let_def)

lemma dereference_last:
  assumes "pool s a = Some ctx" and "reference_count ctx = 1"
  shows "DEREFERENCE_FILTER_CONTEXT (Some a) s =
           Inr ((net_ebpf_ext_remove_filter_context_from_cleanup_list a s)
                  \<lparr>pool := (pool s)(a := None),
                   trace := trace s @ Leave_rundown (provider_context ctx) #
                      Remove_from_cleanup_list a #
                      (if a \<in> set (filter_cleanup_list (wfp_cleanup_state s)) \<and>
                          signal_empty_filter_list (wfp_cleanup_state s) \<and>
                          removeAll a (filter_cleanup_list (wfp_cleanup_state s)) = []
                       then [KeSetEvent] else []) @
                      cleanup_frees a ctx\<rparr>)"
  using assms
  apply (simp add: DEREFERENCE_FILTER_CONTEXT_def Let_def CLEAN_UP_FILTER_CONTEXT_def
      net_ebpf_extension_hook_provider_leave_rundown_def cleanup_frees_def
      net_ebpf_ext_remove_filter_context_from_cleanup_list_def)
  done

text \<open>
  C10. \<open>CLEAN_UP_FILTER_CONTEXT\<close> on an allocated filter context first calls the removal
  from the cleanup list, and only after it frees the filter-id array, the client array
  (each when it is non-null), closes the engine handle and frees the context itself. The
  finalization that \<open>DEREFERENCE_FILTER_CONTEXT\<close> runs when the count reaches zero is the
  same sequence after the provider's rundown release. In both, the context is afterwards
  neither on the cleanup list nor allocated, and a cleanup list that held only allocated
  contexts still does.
\<close>

theorem finalization_leaves_cleanup_list_first:
  fixes s :: extension_state and a :: address and ctx :: net_ebpf_extension_wfp_filter_context
  defines "calls \<equiv>
     Remove_from_cleanup_list a #
     (if a \<in> set (filter_cleanup_list (wfp_cleanup_state s)) \<and>
         signal_empty_filter_list (wfp_cleanup_state s) \<and>
         removeAll a (filter_cleanup_list (wfp_cleanup_state s)) = []
      then [KeSetEvent] else []) @
     (if filter_ids ctx \<noteq> None then [ExFreePool_filter_ids a] else []) @
     (if client_contexts ctx \<noteq> None then [ExFreePool_client_contexts a] else []) @
     (case wfp_engine_handle ctx of None \<Rightarrow> [] | Some h \<Rightarrow> [FwpmEngineClose h]) @
     [ExFreePool_filter_context a]"
  assumes allocated: "pool s a = Some ctx"
  shows "(\<exists>s'. CLEAN_UP_FILTER_CONTEXT (Some a) s = Inr s' \<and>
            trace s' = trace s @ calls \<and>
            a \<notin> set (filter_cleanup_list (wfp_cleanup_state s')) \<and>
            pool s' a = None \<and>
            (set (filter_cleanup_list (wfp_cleanup_state s)) \<subseteq> dom (pool s) \<longrightarrow>
             set (filter_cleanup_list (wfp_cleanup_state s')) \<subseteq> dom (pool s')))
       \<and> (reference_count ctx = 1 \<longrightarrow>
           (\<exists>s'. DEREFERENCE_FILTER_CONTEXT (Some a) s = Inr s' \<and>
              trace s' = trace s @ Leave_rundown (provider_context ctx) # calls \<and>
              a \<notin> set (filter_cleanup_list (wfp_cleanup_state s')) \<and>
              pool s' a = None \<and>
              (set (filter_cleanup_list (wfp_cleanup_state s)) \<subseteq> dom (pool s) \<longrightarrow>
               set (filter_cleanup_list (wfp_cleanup_state s')) \<subseteq> dom (pool s'))))"
proof (intro conjI impI)
  let ?removed = "net_ebpf_ext_remove_filter_context_from_cleanup_list a s"
  have kept: "set (filter_cleanup_list (wfp_cleanup_state s)) \<subseteq> dom (pool s) \<Longrightarrow>
      set (removeAll a (filter_cleanup_list (wfp_cleanup_state s))) \<subseteq>
        dom ((pool s)(a := None))"
    by auto
  have gone: "a \<notin> set (removeAll a (filter_cleanup_list (wfp_cleanup_state s)))"
    by simp
  show "\<exists>s'. CLEAN_UP_FILTER_CONTEXT (Some a) s = Inr s' \<and>
      trace s' = trace s @ calls \<and>
      a \<notin> set (filter_cleanup_list (wfp_cleanup_state s')) \<and>
      pool s' a = None \<and>
      (set (filter_cleanup_list (wfp_cleanup_state s)) \<subseteq> dom (pool s) \<longrightarrow>
       set (filter_cleanup_list (wfp_cleanup_state s')) \<subseteq> dom (pool s'))"
    using kept gone
    by (simp add: clean_up_allocated [OF allocated] remove_trace remove_list calls_def
        cleanup_frees_def del: dom_fun_upd set_removeAll)
  assume "reference_count ctx = 1"
  then show "\<exists>s'. DEREFERENCE_FILTER_CONTEXT (Some a) s = Inr s' \<and>
      trace s' = trace s @ Leave_rundown (provider_context ctx) # calls \<and>
      a \<notin> set (filter_cleanup_list (wfp_cleanup_state s')) \<and>
      pool s' a = None \<and>
      (set (filter_cleanup_list (wfp_cleanup_state s)) \<subseteq> dom (pool s) \<longrightarrow>
       set (filter_cleanup_list (wfp_cleanup_state s')) \<subseteq> dom (pool s'))"
    using kept gone
    by (simp add: dereference_last [OF allocated] remove_list calls_def
        cleanup_frees_def del: dom_fun_upd set_removeAll)
qed

theorem finalization_leaves_cleanup_list_first_witness:
  "(\<exists>s'. CLEAN_UP_FILTER_CONTEXT (Some 3) deleting_state = Inr s' \<and>
      trace s' = [Remove_from_cleanup_list 3, ExFreePool_filter_ids 3,
                  ExFreePool_client_contexts 3, FwpmEngineClose 9,
                  ExFreePool_filter_context 3] \<and>
      3 \<notin> set (filter_cleanup_list (wfp_cleanup_state s')) \<and> pool s' 3 = None)
   \<and> (\<exists>s'. DEREFERENCE_FILTER_CONTEXT (Some 3) deleting_state = Inr s' \<and>
      trace s' = [Leave_rundown 5, Remove_from_cleanup_list 3, ExFreePool_filter_ids 3,
                  ExFreePool_client_contexts 3, FwpmEngineClose 9,
                  ExFreePool_filter_context 3] \<and>
      3 \<notin> set (filter_cleanup_list (wfp_cleanup_state s')) \<and> pool s' 3 = None)"
proof -
  have allocated: "pool deleting_state 3 = Some deleting_context"
    by (simp add: deleting_state_def)
  have last: "reference_count deleting_context = 1"
    by (simp add: deleting_context_def)
  have fields: "trace deleting_state = []"
    "filter_cleanup_list (wfp_cleanup_state deleting_state) = [3]"
    "signal_empty_filter_list (wfp_cleanup_state deleting_state) = False"
    "filter_ids deleting_context \<noteq> None" "client_contexts deleting_context \<noteq> None"
    "wfp_engine_handle deleting_context = Some 9" "provider_context deleting_context = 5"
    by (simp_all add: deleting_state_def deleting_context_def)
  show ?thesis
    using finalization_leaves_cleanup_list_first [OF allocated] last
    by (auto simp: fields)
qed

section \<open>Properties of the end of a filter context's life\<close>

lemma pending_after_report:
  assumes "filter_ids ctx = Some ids" and "i < length ids"
  shows "set (pending_deletions
                (ctx\<lparr>filter_ids :=
                       Some (ids[i := (ids ! i)\<lparr>state := NET_EBPF_EXT_WFP_FILTER_DELETED\<rparr>])\<rparr>)) =
         set (pending_deletions ctx) - {i}"
  using assms by (auto simp: pending_deletions_def nth_list_update)

lemma pending_in_range:
  assumes "i \<in> set (pending_deletions ctx)"
  shows "\<exists>ids. filter_ids ctx = Some ids \<and> i < length ids"
  using assms by (cases "filter_ids ctx") (auto simp: pending_deletions_def)

lemma run_append:
  "lifecycle_run a (ps @ qs) s =
     (case lifecycle_run a ps s of Inl f \<Rightarrow> Inl f | Inr s' \<Rightarrow> lifecycle_run a qs s')"
  by (induction ps arbitrary: s) (simp_all split: sum.splits)

lemma step_freed:
  assumes "pool s a = None"
  shows "lifecycle_step a e s = Inl Invalid_access"
  using assms
  by (cases e) (simp_all add: DEREFERENCE_FILTER_CONTEXT_def net_ebpf_ext_filter_change_notify_def)

lemma events_counted: "releases es + length (callbacks es) = length es"
  by (induction es rule: callbacks.induct) simp_all

lemma unat_decremented:
  fixes c :: "32 word"
  assumes "2 \<le> unat c"
  shows "c \<noteq> 1" and "unat (c - 1) = unat c - 1"
proof -
  show "c \<noteq> 1" using assms by auto
  have "c \<noteq> 0" using assms by auto
  then show "unat (c - 1) = unat c - 1" by (simp add: unat_minus_one)
qed

lemma unat_one:
  fixes c :: "32 word"
  assumes "unat c = 1"
  shows "c = 1"
  using assms by (metis unat_1 word_unat_eq_iff)

lemma last_dereference_trace:
  assumes "pool s a = Some ctx" and "reference_count ctx = 1"
  shows "\<exists>s' mid. DEREFERENCE_FILTER_CONTEXT (Some a) s = Inr s' \<and> pool s' a = None \<and>
           trace s' = trace s @ mid @ [ExFreePool_filter_context a] \<and>
           Leave_rundown (provider_context ctx) \<in> set mid \<and>
           ExFreePool_filter_context a \<notin> set mid"
proof -
  let ?signal = "if a \<in> set (filter_cleanup_list (wfp_cleanup_state s)) \<and>
      signal_empty_filter_list (wfp_cleanup_state s) \<and>
      removeAll a (filter_cleanup_list (wfp_cleanup_state s)) = []
    then [KeSetEvent] else []"
  let ?mid = "Leave_rundown (provider_context ctx) # Remove_from_cleanup_list a # ?signal @
      (if filter_ids ctx \<noteq> None then [ExFreePool_filter_ids a] else []) @
      (if client_contexts ctx \<noteq> None then [ExFreePool_client_contexts a] else []) @
      (case wfp_engine_handle ctx of None \<Rightarrow> [] | Some h \<Rightarrow> [FwpmEngineClose h])"
  define s' where "s' = (net_ebpf_ext_remove_filter_context_from_cleanup_list a s)
      \<lparr>pool := (pool s)(a := None),
       trace := trace s @ Leave_rundown (provider_context ctx) #
          Remove_from_cleanup_list a # ?signal @ cleanup_frees a ctx\<rparr>"
  have run: "DEREFERENCE_FILTER_CONTEXT (Some a) s = Inr s'"
    unfolding s'_def by (rule dereference_last [OF assms])
  have freed: "pool s' a = None"
    by (simp add: s'_def)
  have "trace s' = trace s @ Leave_rundown (provider_context ctx) #
      Remove_from_cleanup_list a # ?signal @ cleanup_frees a ctx"
    by (simp add: s'_def)
  also have "Leave_rundown (provider_context ctx) # Remove_from_cleanup_list a # ?signal @
      cleanup_frees a ctx = ?mid @ [ExFreePool_filter_context a]"
    by (simp add: cleanup_frees_def)
  finally have calls: "trace s' = trace s @ ?mid @ [ExFreePool_filter_context a]" .
  have once: "ExFreePool_filter_context a \<notin> set ?mid"
    by (simp split: option.splits)
  have rundown: "Leave_rundown (provider_context ctx) \<in> set ?mid"
    by simp
  from run freed calls rundown once show ?thesis by blast
qed

lemma notify_step:
  assumes "pool s a = Some ctx" and "i \<in> set (pending_deletions ctx)"
  shows "\<exists>s1 ctx1 mid.
           net_ebpf_ext_filter_change_notify a i s = DEREFERENCE_FILTER_CONTEXT (Some a) s1 \<and>
           pool s1 a = Some ctx1 \<and>
           reference_count ctx1 = reference_count ctx \<and>
           provider_context ctx1 = provider_context ctx \<and>
           set (pending_deletions ctx1) = set (pending_deletions ctx) - {i} \<and>
           trace s1 = trace s @ mid \<and>
           ExFreePool_filter_context a \<notin> set mid"
proof -
  from pending_in_range [OF assms(2)]
  obtain ids where ids: "filter_ids ctx = Some ids" "i < length ids" by blast
  let ?ctx1 = "ctx\<lparr>filter_ids :=
      Some (ids[i := (ids ! i)\<lparr>state := NET_EBPF_EXT_WFP_FILTER_DELETED\<rparr>])\<rparr>"
  let ?s0 = "s\<lparr>pool := (pool s)(a \<mapsto> ?ctx1)\<rparr>"
  let ?s1 = "if pending_deletions ?ctx1 = []
    then net_ebpf_ext_remove_filter_context_from_cleanup_list a ?s0 else ?s0"
  have run: "net_ebpf_ext_filter_change_notify a i s = DEREFERENCE_FILTER_CONTEXT (Some a) ?s1"
    using assms(1) ids by (simp add: net_ebpf_ext_filter_change_notify_def Let_def)
  have there: "pool ?s1 a = Some ?ctx1"
    by (simp add: remove_pool)
  have pending: "set (pending_deletions ?ctx1) = set (pending_deletions ctx) - {i}"
    by (rule pending_after_report [OF ids])
  have "\<exists>mid. trace ?s1 = trace s @ mid \<and> ExFreePool_filter_context a \<notin> set mid"
    by (simp add: remove_trace)
  then obtain mid where "trace ?s1 = trace s @ mid" "ExFreePool_filter_context a \<notin> set mid"
    by blast
  with run there pending show ?thesis
    by (intro exI [where x = ?s1] exI [where x = ?ctx1] exI [where x = mid]) simp
qed

lemma prefix_keeps:
  assumes "pool s a = Some ctx"
    and "distinct (callbacks (ps @ qs))"
    and "set (callbacks (ps @ qs)) = set (pending_deletions ctx)"
    and "unat (reference_count ctx) = releases (ps @ qs) + length (callbacks (ps @ qs))"
    and "qs \<noteq> []"
  shows "\<exists>s' ctx' mid.
           lifecycle_run a ps s = Inr s' \<and> pool s' a = Some ctx' \<and>
           unat (reference_count ctx') = releases qs + length (callbacks qs) \<and>
           set (pending_deletions ctx') = set (callbacks qs) \<and>
           provider_context ctx' = provider_context ctx \<and>
           trace s' = trace s @ mid \<and> ExFreePool_filter_context a \<notin> set mid"
  using assms
proof (induction ps arbitrary: s ctx)
  case Nil
  then show ?case by simp
next
  case (Cons e ps)
  let ?rest = "ps @ qs"
  have "length ?rest \<ge> 1" using Cons.prems(5) by (cases qs) simp_all
  then have more: "releases ?rest + length (callbacks ?rest) \<ge> 1"
    by (simp add: events_counted)
  show ?case
  proof (cases e)
    case Release
    let ?ctx1 = "ctx\<lparr>reference_count := reference_count ctx - 1\<rparr>"
    let ?s1 = "s\<lparr>pool := (pool s)(a \<mapsto> ?ctx1)\<rparr>"
    from Cons.prems(4) more Release have two: "2 \<le> unat (reference_count ctx)" by simp
    have step: "lifecycle_step a e s = Inr ?s1"
      using Release dereference_keeps [OF Cons.prems(1) unat_decremented(1) [OF two]] by simp
    have there: "pool ?s1 a = Some ?ctx1" by simp
    have count: "unat (reference_count ?ctx1) = releases ?rest + length (callbacks ?rest)"
      using Cons.prems(4) Release unat_decremented(2) [OF two] by simp
    have pending: "set (callbacks ?rest) = set (pending_deletions ?ctx1)"
      using Cons.prems(3) Release by (simp add: pending_deletions_def)
    have dist: "distinct (callbacks ?rest)" using Cons.prems(2) Release by simp
    from Cons.IH [OF there dist pending count Cons.prems(5)]
    obtain s' ctx' mid where "lifecycle_run a ps ?s1 = Inr s'" "pool s' a = Some ctx'"
      "unat (reference_count ctx') = releases qs + length (callbacks qs)"
      "set (pending_deletions ctx') = set (callbacks qs)"
      "provider_context ctx' = provider_context ?ctx1"
      "trace s' = trace ?s1 @ mid" "ExFreePool_filter_context a \<notin> set mid"
      by blast
    then show ?thesis using step by auto
  next
    case (Rule_deleted i)
    from Cons.prems(4) more Rule_deleted have two: "2 \<le> unat (reference_count ctx)" by simp
    have "i \<in> set (pending_deletions ctx)" using Cons.prems(3) Rule_deleted by auto
    from notify_step [OF Cons.prems(1) this]
    obtain s0 ctx0 mid0 where
      notify: "net_ebpf_ext_filter_change_notify a i s = DEREFERENCE_FILTER_CONTEXT (Some a) s0"
      and there0: "pool s0 a = Some ctx0"
      and count0: "reference_count ctx0 = reference_count ctx"
      and provider0: "provider_context ctx0 = provider_context ctx"
      and pending0: "set (pending_deletions ctx0) = set (pending_deletions ctx) - {i}"
      and trace0: "trace s0 = trace s @ mid0" "ExFreePool_filter_context a \<notin> set mid0"
      by blast
    let ?ctx1 = "ctx0\<lparr>reference_count := reference_count ctx0 - 1\<rparr>"
    let ?s1 = "s0\<lparr>pool := (pool s0)(a \<mapsto> ?ctx1)\<rparr>"
    from two count0 have two0: "2 \<le> unat (reference_count ctx0)" by simp
    have step: "lifecycle_step a e s = Inr ?s1"
      using Rule_deleted notify dereference_keeps [OF there0 unat_decremented(1) [OF two0]]
      by simp
    have there: "pool ?s1 a = Some ?ctx1" by simp
    have count: "unat (reference_count ?ctx1) = releases ?rest + length (callbacks ?rest)"
      using Cons.prems(4) Rule_deleted unat_decremented(2) [OF two0] count0 by simp
    have pending: "set (callbacks ?rest) = set (pending_deletions ?ctx1)"
      using Cons.prems(2,3) Rule_deleted pending0 by (auto simp: pending_deletions_def)
    have dist: "distinct (callbacks ?rest)" using Cons.prems(2) Rule_deleted by simp
    from Cons.IH [OF there dist pending count Cons.prems(5)]
    obtain s' ctx' mid where "lifecycle_run a ps ?s1 = Inr s'" "pool s' a = Some ctx'"
      "unat (reference_count ctx') = releases qs + length (callbacks qs)"
      "set (pending_deletions ctx') = set (callbacks qs)"
      "provider_context ctx' = provider_context ?ctx1"
      "trace s' = trace ?s1 @ mid" "ExFreePool_filter_context a \<notin> set mid"
      by blast
    then have "lifecycle_run a (e # ps) s = Inr s' \<and> pool s' a = Some ctx' \<and>
        unat (reference_count ctx') = releases qs + length (callbacks qs) \<and>
        set (pending_deletions ctx') = set (callbacks qs) \<and>
        provider_context ctx' = provider_context ctx \<and>
        trace s' = trace s @ (mid0 @ mid) \<and> ExFreePool_filter_context a \<notin> set (mid0 @ mid)"
      using step provider0 trace0 by simp
    then show ?thesis by blast
  qed
qed

lemma last_event_frees:
  assumes "pool s a = Some ctx"
    and "set (callbacks [e]) = set (pending_deletions ctx)"
    and "unat (reference_count ctx) = releases [e] + length (callbacks [e])"
  shows "\<exists>s' mid. lifecycle_step a e s = Inr s' \<and> pool s' a = None \<and>
           trace s' = trace s @ mid @ [ExFreePool_filter_context a] \<and>
           Leave_rundown (provider_context ctx) \<in> set mid \<and>
           ExFreePool_filter_context a \<notin> set mid"
proof (cases e)
  case Release
  then have "reference_count ctx = 1" using assms(3) by (simp add: unat_one)
  from last_dereference_trace [OF assms(1) this] show ?thesis using Release by simp
next
  case (Rule_deleted i)
  then have one: "reference_count ctx = 1" using assms(3) by (simp add: unat_one)
  have "i \<in> set (pending_deletions ctx)" using assms(2) Rule_deleted by auto
  from notify_step [OF assms(1) this]
  obtain s0 ctx0 mid0 where
    notify: "net_ebpf_ext_filter_change_notify a i s = DEREFERENCE_FILTER_CONTEXT (Some a) s0"
    and there0: "pool s0 a = Some ctx0"
    and count0: "reference_count ctx0 = reference_count ctx"
    and provider0: "provider_context ctx0 = provider_context ctx"
    and trace0: "trace s0 = trace s @ mid0" "ExFreePool_filter_context a \<notin> set mid0"
    by blast
  from one count0 have "reference_count ctx0 = 1" by simp
  from last_dereference_trace [OF there0 this]
  obtain s' mid where "DEREFERENCE_FILTER_CONTEXT (Some a) s0 = Inr s'" "pool s' a = None"
    "trace s' = trace s0 @ mid @ [ExFreePool_filter_context a]"
    "Leave_rundown (provider_context ctx0) \<in> set mid"
    "ExFreePool_filter_context a \<notin> set mid"
    by blast
  then have "lifecycle_step a e s = Inr s' \<and> pool s' a = None \<and>
      trace s' = trace s @ (mid0 @ mid) @ [ExFreePool_filter_context a] \<and>
      Leave_rundown (provider_context ctx) \<in> set (mid0 @ mid) \<and>
      ExFreePool_filter_context a \<notin> set (mid0 @ mid)"
    using Rule_deleted notify provider0 trace0 by simp
  then show ?thesis by blast
qed

lemma pending_context_fields:
  "pending_deletions pending_context = [0, 1, 2]"
  "provider_context pending_context = 5"
  "unat (reference_count pending_context) = 4"
  "pool pending_state 3 = Some pending_context"
  "trace pending_state = []"
  by (simp_all add: pending_deletions_def pending_context_def pending_rule_def
      pending_state_def)



section \<open>Properties of attaching clients\<close>

lemma unat_next_client:
  fixes c m :: "32 word"
  assumes "c < m"
  shows "unat (c + 1) = Suc (unat c)"
proof -
  have "unat c < unat m" using assms by (simp add: word_less_nat_alt)
  moreover have "unat m < 2 ^ LENGTH(32)" by (rule unsigned_less)
  ultimately have "unat c + unat (1 :: 32 word) < 2 ^ LENGTH(32)" by simp
  then have "unat (c + 1) = unat c + unat (1 :: 32 word)" by (simp only: unat_add_lem)
  then show ?thesis by simp
qed

lemma add_client_room:
  assumes "client_context_count ctx < client_context_count_max ctx"
  shows "fst (net_ebpf_ext_add_client_context ctx c) = EBPF_SUCCESS \<and>
         unat (client_context_count (snd (net_ebpf_ext_add_client_context ctx c))) =
           Suc (unat (client_context_count ctx)) \<and>
         client_context_count_max (snd (net_ebpf_ext_add_client_context ctx c)) =
           client_context_count_max ctx"
  using assms unat_next_client [OF assms]
  by (simp add: net_ebpf_ext_add_client_context_def)

lemma add_client_full:
  assumes "\<not> client_context_count ctx < client_context_count_max ctx"
  shows "net_ebpf_ext_add_client_context ctx c = (EBPF_NO_MEMORY, ctx)"
  using assms by (simp add: net_ebpf_ext_add_client_context_def)

lemma attach_all_room:
  assumes "unat (client_context_count ctx) + length cs \<le> unat (client_context_count_max ctx)"
  shows "fst (attach_all ctx cs) = replicate (length cs) EBPF_SUCCESS \<and>
         unat (client_context_count (snd (attach_all ctx cs))) =
           unat (client_context_count ctx) + length cs \<and>
         client_context_count_max (snd (attach_all ctx cs)) = client_context_count_max ctx"
  using assms
proof (induction cs arbitrary: ctx)
  case Nil
  show ?case by simp
next
  case (Cons c cs)
  let ?r = "net_ebpf_ext_add_client_context ctx c"
  from Cons.prems have room: "client_context_count ctx < client_context_count_max ctx"
    by (simp add: word_less_nat_alt)
  note step = add_client_room [OF room, where c = c]
  have "unat (client_context_count (snd ?r)) + length cs \<le> unat (client_context_count_max (snd ?r))"
    using Cons.prems step by simp
  from Cons.IH [OF this] show ?case
    using step by (simp add: split_beta)
qed

text \<open>
  C7. On a filter context with no client yet and a client array of capacity \<open>N\<close>, \<open>N\<close>
  attach calls in a row all return \<open>EBPF_SUCCESS\<close> and fill the array; any further attach
  returns \<open>EBPF_NO_MEMORY\<close> and leaves the context, its client count included, as it was.
\<close>

theorem attach_fails_when_client_array_full:
  assumes "client_context_count ctx = 0"
    and "length clients = unat (client_context_count_max ctx)"
  shows "\<exists>full. attach_all ctx clients = (replicate (length clients) EBPF_SUCCESS, full) \<and>
           client_context_count full = client_context_count_max ctx \<and>
           client_context_count_max full = client_context_count_max ctx \<and>
           net_ebpf_ext_add_client_context full extra = (EBPF_NO_MEMORY, full)"
proof -
  let ?full = "snd (attach_all ctx clients)"
  have "unat (client_context_count ctx) + length clients \<le> unat (client_context_count_max ctx)"
    using assms by simp
  from attach_all_room [OF this]
  have results: "fst (attach_all ctx clients) = replicate (length clients) EBPF_SUCCESS"
    and count: "unat (client_context_count ?full) = unat (client_context_count_max ctx)"
    and capacity: "client_context_count_max ?full = client_context_count_max ctx"
    using assms by simp_all
  from count have reached: "client_context_count ?full = client_context_count_max ctx"
    by (simp add: word_unat_eq_iff)
  then have "\<not> client_context_count ?full < client_context_count_max ?full"
    using capacity by simp
  then have "net_ebpf_ext_add_client_context ?full extra = (EBPF_NO_MEMORY, ?full)"
    by (rule add_client_full)
  moreover have "attach_all ctx clients = (replicate (length clients) EBPF_SUCCESS, ?full)"
    using results by (simp add: prod_eq_iff)
  ultimately show ?thesis using reached capacity by blast
qed

theorem attach_fails_when_client_array_full_witness:
  "\<exists>full. attach_all (empty_context NET_EBPF_EXT_MAX_CLIENTS_PER_HOOK_MULTI_ATTACH)
             [1, 2, 3, 4, 5, 6, 7, 8, 9, 10, 11, 12, 13, 14, 15, 16] =
           (replicate 16 EBPF_SUCCESS, full) \<and>
          client_context_count full = 16 \<and>
          net_ebpf_ext_add_client_context full 17 = (EBPF_NO_MEMORY, full)"
proof -
  let ?ctx = "empty_context NET_EBPF_EXT_MAX_CLIENTS_PER_HOOK_MULTI_ATTACH"
  have none: "client_context_count ?ctx = 0"
    by (simp add: empty_context_def)
  have capacity: "client_context_count_max ?ctx = 16"
    by (simp add: empty_context_def NET_EBPF_EXT_MAX_CLIENTS_PER_HOOK_MULTI_ATTACH_def)
  have sixteen: "length [1, 2, 3, 4, 5, 6, 7, 8, 9, 10, 11, 12, 13, 14, 15, 16 :: hook_client] =
      unat (client_context_count_max ?ctx)"
    by (simp add: capacity)
  have len: "length [1, 2, 3, 4, 5, 6, 7, 8, 9, 10, 11, 12, 13, 14, 15, 16 :: hook_client] = 16"
    by simp
  from attach_fails_when_client_array_full [OF none sixteen, of 17]
  have "\<exists>full. attach_all ?ctx [1, 2, 3, 4, 5, 6, 7, 8, 9, 10, 11, 12, 13, 14, 15, 16] =
           (replicate 16 EBPF_SUCCESS, full) \<and>
          client_context_count full = 16 \<and>
          client_context_count_max full = 16 \<and>
          net_ebpf_ext_add_client_context full 17 = (EBPF_NO_MEMORY, full)"
    by (simp only: len capacity)
  then show ?thesis by blast
qed

end
